theory Spec2Isabelle
  imports Complex_Main "HOL-Library.Sublist"
begin

section \<open>JavaScript values\<close>

text \<open>
  The client receives its requests as plain JavaScript values and reads response bodies
  as JSON. A value is \<open>undefined\<close>, \<open>null\<close>, a boolean, a number, a string, an array or
  a plain object. An object is the list of its own properties in the order
  \<open>Object.values\<close> enumerates them. A \<open>string\<close> stands for a JavaScript string whose
  code units are all below 256. Numbers are the rationals with the three IEEE specials.
\<close>

datatype jsnum = Finite rat | NaN | PosInf | NegInf

datatype jsval =
    JUndefined
  | JNull
  | JBool bool
  | JNum jsnum
  | JStr string
  | JArr "jsval list"
  | JObj "(string \<times> jsval) list"

text \<open>\<open>!v\<close> is \<open>\<not> truthy v\<close>.\<close>

fun truthy :: "jsval \<Rightarrow> bool" where
  "truthy JUndefined = False"
| "truthy JNull = False"
| "truthy (JBool b) = b"
| "truthy (JNum n) = (n \<noteq> Finite 0 \<and> n \<noteq> NaN)"
| "truthy (JStr s) = (s \<noteq> [])"
| "truthy (JArr xs) = True"
| "truthy (JObj kvs) = True"

fun typeof :: "jsval \<Rightarrow> string" where
  "typeof JUndefined = ''undefined''"
| "typeof JNull = ''object''"
| "typeof (JBool b) = ''boolean''"
| "typeof (JNum n) = ''number''"
| "typeof (JStr s) = ''string''"
| "typeof (JArr xs) = ''object''"
| "typeof (JObj kvs) = ''object''"

fun isArray :: "jsval \<Rightarrow> bool" where
  "isArray (JArr xs) = True"
| "isArray v = False"

text \<open>
  \<open>k in v\<close> and \<open>v[k]\<close> for the property names the client uses (none of them is an
  array index or a property of a built-in prototype). Reading a property of a
  primitive gives \<open>undefined\<close>; the two places where the source would read a property of
  \<open>undefined\<close> or \<open>null\<close> are written out where they occur.
\<close>

fun has_key :: "string \<Rightarrow> jsval \<Rightarrow> bool" where
  "has_key k (JObj kvs) = (k \<in> set (map fst kvs))"
| "has_key k v = False"

fun get :: "string \<Rightarrow> jsval \<Rightarrow> jsval" where
  "get k (JObj kvs) = (case map_of kvs k of None \<Rightarrow> JUndefined | Some v \<Rightarrow> v)"
| "get k v = JUndefined"

text \<open>\<open>s.includes(p)\<close> on strings.\<close>

fun js_includes :: "string \<Rightarrow> string \<Rightarrow> bool" where
  "js_includes [] p = (p = [])"
| "js_includes (c # cs) p = (prefix p (c # cs) \<or> js_includes cs p)"

text \<open>\<open>s.trim() === ""\<close>: every code unit of \<open>s\<close> is white space or a line terminator.\<close>

definition is_space :: "char \<Rightarrow> bool" where
  "is_space c = (of_char c \<in> {9, 10, 11, 12, 13, 32, 160 :: nat})"

definition trims_to_empty :: "string \<Rightarrow> bool" where
  "trims_to_empty s = list_all is_space s"

text \<open>
  The decimal digits of an index or a status inside a template literal. \<open>digit_char\<close> is
  only applied to numbers below 10.
\<close>

definition digit_char :: "nat \<Rightarrow> char" where
  "digit_char d = ''0123456789'' ! d"

fun string_of_nat :: "nat \<Rightarrow> string" where
  "string_of_nat n =
     (if n < 10 then [digit_char n] else string_of_nat (n div 10) @ [digit_char (n mod 10)])"

declare string_of_nat.simps [simp del]

text \<open>\<open>xs.join(sep)\<close> on a list of strings.\<close>

fun js_join :: "string \<Rightarrow> string list \<Rightarrow> string" where
  "js_join sep [] = []"
| "js_join sep [x] = x"
| "js_join sep (x # y # ys) = x @ sep @ js_join sep (y # ys)"

section \<open>The typed errors\<close>

text \<open>
  \<open>AlleAIError\<close> and its seven subclasses. A class constructor fixes the \<open>status\<close> its
  instances carry; only \<open>APIError\<close> takes it as an argument.
\<close>

datatype error_kind =
    Validation | Authentication | InvalidRequest | RateLimit
  | ServiceUnavailable | Connection | API

record alle_error =
  kind :: error_kind
  message :: string
  code :: string
  status :: "nat option"
  details :: jsval

definition ValidationError :: "string \<Rightarrow> alle_error" where
  "ValidationError msg =
     \<lparr>kind = Validation, message = msg, code = ''VALIDATION_ERROR'', status = None,
      details = JUndefined\<rparr>"

definition AuthenticationError :: "string \<Rightarrow> string \<Rightarrow> jsval \<Rightarrow> alle_error" where
  "AuthenticationError msg c d =
     \<lparr>kind = Authentication, message = msg, code = c, status = Some 401, details = d\<rparr>"

definition InvalidRequestError :: "string \<Rightarrow> string \<Rightarrow> jsval \<Rightarrow> alle_error" where
  "InvalidRequestError msg c d =
     \<lparr>kind = InvalidRequest, message = msg, code = c, status = Some 400, details = d\<rparr>"

definition RateLimitError :: "string \<Rightarrow> string \<Rightarrow> jsval \<Rightarrow> alle_error" where
  "RateLimitError msg c d =
     \<lparr>kind = RateLimit, message = msg, code = c, status = Some 429, details = d\<rparr>"

definition ServiceUnavailableError :: "string \<Rightarrow> string \<Rightarrow> jsval \<Rightarrow> alle_error" where
  "ServiceUnavailableError msg c d =
     \<lparr>kind = ServiceUnavailable, message = msg, code = c, status = Some 503, details = d\<rparr>"

definition ConnectionError :: "string \<Rightarrow> string \<Rightarrow> jsval \<Rightarrow> alle_error" where
  "ConnectionError msg c d =
     \<lparr>kind = Connection, message = msg, code = c, status = None, details = d\<rparr>"

definition APIError :: "string \<Rightarrow> string \<Rightarrow> nat option \<Rightarrow> jsval \<Rightarrow> alle_error" where
  "APIError msg c st d =
     \<lparr>kind = API, message = msg, code = c, status = st, details = d\<rparr>"

text \<open>
  What a call can throw: one of the typed errors, or any other \<open>Error\<close> object, kept as
  its class name and its message. Messages of errors the engine itself raises are
  worded as V8 words them.
\<close>

datatype exn = Typed alle_error | Untyped string string

definition validation_failure :: "string \<Rightarrow> exn + 'a" where
  "validation_failure msg = Inl (Typed (ValidationError msg))"

section \<open>Chat: the request validator\<close>

text \<open>\<open>xs.forEach((x, i) => f(x, i))\<close> where \<open>f\<close> may throw: the first throw ends the loop.\<close>

fun forEach_from :: "nat \<Rightarrow> (jsval \<Rightarrow> nat \<Rightarrow> exn + unit) \<Rightarrow> jsval list \<Rightarrow> exn + unit" where
  "forEach_from i f [] = Inr ()"
| "forEach_from i f (x # xs) =
     (case f x i of Inl e \<Rightarrow> Inl e | Inr u \<Rightarrow> forEach_from (Suc i) f xs)"

definition forEach :: "(jsval \<Rightarrow> nat \<Rightarrow> exn + unit) \<Rightarrow> jsval list \<Rightarrow> exn + unit" where
  "forEach f xs = forEach_from 0 f xs"

text \<open>\<open>xs.length\<close> and the elements of an array; only read after \<open>Array.isArray\<close>.\<close>

fun elements :: "jsval \<Rightarrow> jsval list" where
  "elements (JArr xs) = xs"
| "elements v = []"

definition validTypes :: "string list" where
  "validTypes = [''text'', ''audio_url'', ''image_url'', ''video_url'']"

definition validateContentObject :: "jsval \<Rightarrow> string \<Rightarrow> exn + unit" where
  "validateContentObject content path =
     (if \<not> truthy content \<or> typeof content \<noteq> ''object'' \<or> \<not> has_key ''type'' content
      then validation_failure (path @ '' must be an object with a 'type' property'')
      else if get ''type'' content \<notin> set (map JStr validTypes)
      then validation_failure (path @ ''.type must be one of: '' @ js_join '', '' validTypes)
      else Inr ())"

text \<open>One pass of the loop over \<open>["system", "user"]\<close>.\<close>

definition validateRoleField :: "string \<Rightarrow> jsval \<Rightarrow> exn + unit" where
  "validateRoleField key msg =
     (if has_key key msg \<and> truthy (get key msg)
      then (if \<not> isArray (get key msg)
            then validation_failure (key @ '' must be an array of content objects'')
            else forEach (\<lambda>content i.
                   validateContentObject content (key @ ''['' @ string_of_nat i @ '']''))
                   (elements (get key msg)))
      else Inr ())"

text \<open>
  \<open>Object.values(v)\<close> for a value that is truthy, of type \<open>object\<close> and not an array.
\<close>

fun object_values :: "jsval \<Rightarrow> jsval list" where
  "object_values (JObj kvs) = map snd kvs"
| "object_values v = []"

text \<open>The second half of \<open>validateMessageContent\<close>: the \<open>assistants\<close> field.\<close>

definition validateAssistants :: "jsval \<Rightarrow> exn + unit" where
  "validateAssistants msg =
     (if has_key ''assistants'' msg \<and> truthy (get ''assistants'' msg)
      then (if typeof (get ''assistants'' msg) \<noteq> ''object'' \<or> isArray (get ''assistants'' msg)
            then validation_failure
                   ''assistants must be an object mapping models to content arrays''
            else forEach (\<lambda>contents i.
                   if \<not> isArray contents
                   then validation_failure
                          (''assistants value at index '' @ string_of_nat i @ '' must be an array'')
                   else forEach (\<lambda>content j.
                          validateContentObject content
                            (''assistants value['' @ string_of_nat j @ '']''))
                          (elements contents))
                   (object_values (get ''assistants'' msg)))
      else Inr ())"

definition validateMessageContent :: "jsval \<Rightarrow> nat \<Rightarrow> exn + unit" where
  "validateMessageContent msg index =
     (case validateRoleField ''system'' msg of
        Inl e \<Rightarrow> Inl e
      | Inr u \<Rightarrow>
          (case validateRoleField ''user'' msg of
             Inl e \<Rightarrow> Inl e
           | Inr u \<Rightarrow> validateAssistants msg))"

text \<open>The callback of \<open>messages.forEach\<close> in \<open>validateRequestParameters\<close>.\<close>

definition validateMessage :: "jsval \<Rightarrow> nat \<Rightarrow> exn + unit" where
  "validateMessage msg index =
     (if \<not> truthy msg \<or> typeof msg \<noteq> ''object''
      then validation_failure (''messages['' @ string_of_nat index @ ''] must be an object'')
      else if \<not> (has_key ''system'' msg \<or> has_key ''user'' msg \<or> has_key ''assistants'' msg)
      then validation_failure
        (''messages['' @ string_of_nat index @ ''] must have at least one of: system, user, assistants'')
      else validateMessageContent msg index)"

text \<open>
  The model-list check, written out at the head of every operation of the source:
  \<open>!models || !Array.isArray(models) || models.length === 0\<close>, then \<open>models.every\<close>.
\<close>

definition validateModels :: "jsval \<Rightarrow> exn + unit" where
  "validateModels models =
     (if \<not> truthy models \<or> \<not> isArray models \<or> length (elements models) = 0
      then validation_failure ''models must be a non-empty array of strings''
      else if \<not> list_all (\<lambda>model. typeof model = ''string'') (elements models)
      then validation_failure ''all elements in models must be strings''
      else Inr ())"

text \<open>
  Destructuring the parameter (\<open>{ models, messages }\<close>, \<open>{ models, prompt, ... }\<close>)
  throws a \<open>TypeError\<close> when the argument is \<open>undefined\<close> or \<open>null\<close>.
\<close>

definition destructure_failure :: "jsval \<Rightarrow> exn" where
  "destructure_failure v =
     Untyped ''TypeError''
       (if v = JNull
        then ''Cannot destructure property 'models' of 'object null' as it is null.''
        else ''Cannot destructure property 'models' of 'undefined' as it is undefined.'')"

definition destructurable :: "jsval \<Rightarrow> bool" where
  "destructurable request = (request \<noteq> JUndefined \<and> request \<noteq> JNull)"

definition validateRequestParameters :: "jsval \<Rightarrow> exn + unit" where
  "validateRequestParameters request =
     (if \<not> destructurable request then Inl (destructure_failure request)
      else case validateModels (get ''models'' request) of
        Inl e \<Rightarrow> Inl e
      | Inr u \<Rightarrow>
          (let messages = get ''messages'' request in
           if \<not> truthy messages \<or> \<not> isArray messages \<or> length (elements messages) = 0
           then validation_failure ''messages must be a non-empty array''
           else forEach validateMessage (elements messages)))"

section \<open>The operations and their transport\<close>

text \<open>
  Every module receives its transport as a constructor argument: \<open>makeRequest\<close> for a
  JSON body, \<open>makeFormDataRequest\<close> for a multipart body. A call either throws or
  returns the decoded body. An operation yields what its promise settles to, together
  with the transport calls it made, in order.
\<close>

text \<open>
  A field of a multipart body is a text, a file (its bytes and its name), or the text
  \<open>JSON.stringify\<close> makes of a value.
\<close>

datatype form_value = FText string | FFile string string | FJson jsval

type_synonym form_data = "(string \<times> form_value) list"

datatype call = JsonCall string jsval | FormCall string form_data

type_synonym transport = "string \<Rightarrow> jsval \<Rightarrow> exn + jsval"

type_synonym form_transport = "string \<Rightarrow> form_data \<Rightarrow> exn + jsval"

type_synonym outcome = "(exn + jsval) \<times> call list"

definition rejected :: "exn \<Rightarrow> outcome" where
  "rejected e = (Inl e, [])"

definition send :: "transport \<Rightarrow> string \<Rightarrow> jsval \<Rightarrow> outcome" where
  "send makeRequest endpoint body = (makeRequest endpoint body, [JsonCall endpoint body])"

subsection \<open>Chat\<close>

definition completions :: "transport \<Rightarrow> jsval \<Rightarrow> outcome" where
  "completions makeRequest request =
     (case validateRequestParameters request of
        Inl e \<Rightarrow> rejected e
      | Inr u \<Rightarrow> send makeRequest ''/chat/completions'' request)"

definition combination :: "transport \<Rightarrow> jsval \<Rightarrow> outcome" where
  "combination makeRequest request =
     (case validateRequestParameters request of
        Inl e \<Rightarrow> rejected e
      | Inr u \<Rightarrow> send makeRequest ''/chat/combination'' request)"

text \<open>In \<open>comparison\<close> the call of \<open>validateRequestParameters\<close> is commented out.\<close>

definition comparison :: "transport \<Rightarrow> jsval \<Rightarrow> outcome" where
  "comparison makeRequest request = send makeRequest ''/chat/comparison'' request"

definition search :: "transport \<Rightarrow> jsval \<Rightarrow> outcome" where
  "search makeRequest request =
     (case validateRequestParameters request of
        Inl e \<Rightarrow> rejected e
      | Inr u \<Rightarrow> send makeRequest ''/ai/web-search'' request)"

subsection \<open>Checks shared by the image, audio and video modules\<close>

text \<open>\<open>if (c) throw new ValidationError(msg);\<close> followed by the rest of the body.\<close>

definition throw_if :: "bool \<Rightarrow> string \<Rightarrow> exn + 'a \<Rightarrow> exn + 'a" where
  "throw_if c msg rest = (if c then validation_failure msg else rest)"

text \<open>A destructuring default \<open>x = d\<close> applies when the property is \<open>undefined\<close>.\<close>

definition default_to :: "jsval \<Rightarrow> jsval \<Rightarrow> jsval" where
  "default_to d v = (if v = JUndefined then d else v)"

text \<open>\<open>!v || typeof v !== "string" || v.trim() === ""\<close>.\<close>

fun blank_string :: "jsval \<Rightarrow> bool" where
  "blank_string (JStr s) = (s = [] \<or> trims_to_empty s)"
| "blank_string v = True"

text \<open>\<open>Number.isInteger(v)\<close>, and the comparisons \<open>v < k\<close> and \<open>v <= k\<close> on a number.\<close>

fun isInteger :: "jsval \<Rightarrow> bool" where
  "isInteger (JNum (Finite r)) = (of_int \<lfloor>r\<rfloor> = r)"
| "isInteger v = False"

fun num_less :: "jsnum \<Rightarrow> rat \<Rightarrow> bool" where
  "num_less (Finite r) k = (r < k)"
| "num_less NegInf k = True"
| "num_less n k = False"

fun num_le :: "jsnum \<Rightarrow> rat \<Rightarrow> bool" where
  "num_le (Finite r) k = (r \<le> k)"
| "num_le NegInf k = True"
| "num_le n k = False"

text \<open>\<open>typeof v !== "number" || !Number.isInteger(v) || v < k\<close>.\<close>

fun not_integer_at_least :: "rat \<Rightarrow> jsval \<Rightarrow> bool" where
  "not_integer_at_least k (JNum n) = (\<not> isInteger (JNum n) \<or> num_less n k)"
| "not_integer_at_least k v = True"

text \<open>\<open>typeof v !== "number" || v <= 0\<close>.\<close>

fun not_positive_number :: "jsval \<Rightarrow> bool" where
  "not_positive_number (JNum n) = num_le n 0"
| "not_positive_number v = True"

text \<open>The head of \<open>generate\<close>, \<open>edit\<close>, \<open>tts\<close> and \<open>stt\<close>: models, then the prompt.\<close>

definition validateModelsAndPrompt :: "jsval \<Rightarrow> jsval \<Rightarrow> exn + unit" where
  "validateModelsAndPrompt models prompt =
     (case validateModels models of
        Inl e \<Rightarrow> Inl e
      | Inr u \<Rightarrow> throw_if (blank_string prompt) ''prompt must be a non-empty string'' (Inr ()))"

subsection \<open>Image\<close>

definition image_generate_checks :: "jsval \<Rightarrow> exn + jsval" where
  "image_generate_checks request =
     (let models = get ''models'' request;
          prompt = get ''prompt'' request;
          width = default_to (JNum (Finite 1024)) (get ''width'' request);
          height = default_to (JNum (Finite 1024)) (get ''height'' request);
          n = default_to (JNum (Finite 1)) (get ''n'' request);
          style_preset = default_to JNull (get ''style_preset'' request);
          seed = default_to JNull (get ''seed'' request);
          model_specific_params = default_to (JObj []) (get ''model_specific_params'' request)
      in case validateModelsAndPrompt models prompt of
        Inl e \<Rightarrow> Inl e
      | Inr u \<Rightarrow>
          throw_if (width \<noteq> JUndefined \<and> not_integer_at_least 64 width)
            ''width must be an integer >= 64''
          (throw_if (height \<noteq> JUndefined \<and> not_integer_at_least 64 height)
            ''height must be an integer >= 64''
          (throw_if (n \<noteq> JUndefined \<and> not_integer_at_least 1 n)
            ''n must be an integer >= 1''
          (throw_if (seed \<noteq> JNull \<and> seed \<noteq> JUndefined \<and> \<not> isInteger seed)
            ''seed must be an integer or null''
          (throw_if (style_preset \<noteq> JNull \<and> style_preset \<noteq> JUndefined
                      \<and> typeof style_preset \<noteq> ''string'')
            ''style_preset must be a string or null''
          (throw_if (model_specific_params \<noteq> JUndefined
                      \<and> (typeof model_specific_params \<noteq> ''object''
                          \<or> model_specific_params = JNull))
            ''model_specific_params must be an object''
          (Inr (JObj [(''models'', models), (''prompt'', prompt), (''width'', width),
                      (''height'', height), (''n'', n), (''style_preset'', style_preset),
                      (''seed'', seed),
                      (''model_specific_params'', model_specific_params)]))))))))"

definition image_generate :: "transport \<Rightarrow> jsval \<Rightarrow> outcome" where
  "image_generate makeRequest request =
     (if \<not> destructurable request then rejected (destructure_failure request)
      else case image_generate_checks request of
        Inl e \<Rightarrow> rejected e
      | Inr body \<Rightarrow> send makeRequest ''/image/generate'' body)"

text \<open>
  \<open>processFile\<close> reads a local file or downloads a URL; here it is the environment's
  answer: it throws, or returns the bytes and the file name.
\<close>

type_synonym file_reader = "string \<Rightarrow> string \<Rightarrow> exn + (string \<times> string)"

text \<open>\<open>error instanceof Error ? error.message : String(error)\<close>.\<close>

fun error_message :: "exn \<Rightarrow> string" where
  "error_message (Typed e) = message e"
| "error_message (Untyped name msg) = msg"

text \<open>
  \<open>models.forEach((model, index) => formData.append(`models[${index}]`, model))\<close>; the
  models and the prompt are strings by the time they are appended.
\<close>

fun text_of :: "jsval \<Rightarrow> form_value" where
  "text_of (JStr s) = FText s"
| "text_of v = FJson v"

fun model_fields :: "nat \<Rightarrow> jsval list \<Rightarrow> form_data" where
  "model_fields i [] = []"
| "model_fields i (m # ms) =
     (''models['' @ string_of_nat i @ '']'', text_of m) # model_fields (Suc i) ms"

definition image_edit_checks :: "jsval \<Rightarrow> exn + unit" where
  "image_edit_checks request =
     (case validateModelsAndPrompt (get ''models'' request) (get ''prompt'' request) of
        Inl e \<Rightarrow> Inl e
      | Inr u \<Rightarrow>
          throw_if (blank_string (get ''image_file'' request))
            ''image_file must be a non-empty string'' (Inr ()))"

text \<open>
  The \<open>try\<close> block of \<open>edit\<close> holds the file read and the transport call; its \<open>catch\<close>
  turns whatever was thrown into a new \<open>ValidationError\<close>.
\<close>

definition image_edit :: "file_reader \<Rightarrow> form_transport \<Rightarrow> jsval \<Rightarrow> outcome" where
  "image_edit processFile makeFormDataRequest request =
     (if \<not> destructurable request then rejected (destructure_failure request)
      else case image_edit_checks request of
        Inl e \<Rightarrow> rejected e
      | Inr u \<Rightarrow>
          (let wrap = (\<lambda>e. Typed (ValidationError
                         (''Failed to process image file: '' @ error_message e)))
           in case processFile (case get ''image_file'' request of JStr s \<Rightarrow> s | v \<Rightarrow> [])
                     ''image'' of
             Inl e \<Rightarrow> rejected (wrap e)
           | Inr (buffer, filename) \<Rightarrow>
               (let formData = model_fields 0 (elements (get ''models'' request))
                      @ [(''image_file'', FFile buffer filename),
                         (''prompt'', text_of (get ''prompt'' request))]
                in (case makeFormDataRequest ''/image/edit'' formData of
                      Inl e \<Rightarrow> Inl (wrap e)
                    | Inr v \<Rightarrow> Inr v,
                    [FormCall ''/image/edit'' formData]))))"

subsection \<open>Audio\<close>

definition audio_generate_checks :: "jsval \<Rightarrow> exn + jsval" where
  "audio_generate_checks request =
     (let models = get ''models'' request;
          prompt = get ''prompt'' request;
          model_specific_params = default_to (JObj []) (get ''model_specific_params'' request)
      in case validateModelsAndPrompt models prompt of
        Inl e \<Rightarrow> Inl e
      | Inr u \<Rightarrow>
          throw_if (model_specific_params \<noteq> JUndefined
                     \<and> typeof model_specific_params \<noteq> ''object'')
            ''model_specific_params must be an object''
          (Inr (JObj [(''models'', models), (''prompt'', prompt),
                      (''model_specific_params'', model_specific_params)])))"

definition audio_generate :: "transport \<Rightarrow> jsval \<Rightarrow> outcome" where
  "audio_generate makeRequest request =
     (if \<not> destructurable request then rejected (destructure_failure request)
      else case audio_generate_checks request of
        Inl e \<Rightarrow> rejected e
      | Inr body \<Rightarrow> send makeRequest ''/audio/generate'' body)"

definition tts_checks :: "jsval \<Rightarrow> exn + jsval" where
  "tts_checks request =
     (let models = get ''models'' request;
          prompt = get ''prompt'' request;
          voice = default_to (JStr ''nova'') (get ''voice'' request);
          model_specific_params = default_to (JObj []) (get ''model_specific_params'' request)
      in case validateModels models of
        Inl e \<Rightarrow> Inl e
      | Inr u \<Rightarrow>
          throw_if (length (elements models) > 1)
            ''Only one model is supported for text-to-speech processing at this time''
          (throw_if (blank_string prompt) ''prompt must be a non-empty string''
          (throw_if (truthy voice \<and> typeof voice \<noteq> ''string'') ''voice must be a string''
          (throw_if (model_specific_params \<noteq> JUndefined
                      \<and> typeof model_specific_params \<noteq> ''object'')
            ''model_specific_params must be an object''
          (Inr (JObj [(''models'', models), (''prompt'', prompt), (''voice'', voice),
                      (''model_specific_params'', model_specific_params)]))))))"

definition tts :: "transport \<Rightarrow> jsval \<Rightarrow> outcome" where
  "tts makeRequest request =
     (if \<not> destructurable request then rejected (destructure_failure request)
      else case tts_checks request of
        Inl e \<Rightarrow> rejected e
      | Inr body \<Rightarrow> send makeRequest ''/audio/tts'' body)"

definition stt_checks :: "jsval \<Rightarrow> exn + unit" where
  "stt_checks request =
     (let models = get ''models'' request;
          audio_file = get ''audio_file'' request;
          model_specific_params = default_to (JObj []) (get ''model_specific_params'' request)
      in case validateModels models of
        Inl e \<Rightarrow> Inl e
      | Inr u \<Rightarrow>
          throw_if (length (elements models) > 1)
            ''Only one model is supported for speech-to-text processing at this time''
          (throw_if (blank_string audio_file) ''audio_file must be a non-empty string''
          (throw_if (model_specific_params \<noteq> JUndefined
                      \<and> typeof model_specific_params \<noteq> ''object'')
            ''model_specific_params must be an object''
          (Inr ()))))"

text \<open>
  \<open>Object.keys(v).length > 0\<close> for a value of type \<open>object\<close>: it throws on \<open>null\<close>
  (\<open>None\<close>); an array has its indices as keys.
\<close>

fun has_own_keys :: "jsval \<Rightarrow> bool option" where
  "has_own_keys JNull = None"
| "has_own_keys (JObj kvs) = Some (kvs \<noteq> [])"
| "has_own_keys (JArr xs) = Some (xs \<noteq> [])"
| "has_own_keys v = Some False"

definition stt :: "file_reader \<Rightarrow> form_transport \<Rightarrow> jsval \<Rightarrow> outcome" where
  "stt processFile makeFormDataRequest request =
     (if \<not> destructurable request then rejected (destructure_failure request)
      else case stt_checks request of
        Inl e \<Rightarrow> rejected e
      | Inr u \<Rightarrow>
          (let wrap = (\<lambda>e. Typed (ValidationError ('' '' @ error_message e)));
               model_specific_params =
                 default_to (JObj []) (get ''model_specific_params'' request)
           in case processFile (case get ''audio_file'' request of JStr s \<Rightarrow> s | v \<Rightarrow> [])
                     ''audio'' of
             Inl e \<Rightarrow> rejected (wrap e)
           | Inr (buffer, filename) \<Rightarrow>
               (case has_own_keys model_specific_params of
                  None \<Rightarrow> rejected (wrap (Untyped ''TypeError''
                            ''Cannot convert undefined or null to object''))
                | Some nonempty \<Rightarrow>
                    (let formData = model_fields 0 (elements (get ''models'' request))
                           @ [(''audio_file'', FFile buffer filename)]
                           @ (if nonempty
                              then [(''model_specific_params'', FJson model_specific_params)]
                              else [])
                     in (case makeFormDataRequest ''/audio/stt'' formData of
                           Inl e \<Rightarrow> Inl (wrap e)
                         | Inr v \<Rightarrow> Inr v,
                         [FormCall ''/audio/stt'' formData])))))"

subsection \<open>Video\<close>

text \<open>\<open>s.split(c)\<close> for a separator of one character.\<close>

fun js_split :: "char \<Rightarrow> string \<Rightarrow> string list" where
  "js_split c [] = [[]]"
| "js_split c (x # xs) =
     (if x = c then [] # js_split c xs
      else (case js_split c xs of [] \<Rightarrow> [[x]] | w # ws \<Rightarrow> (x # w) # ws))"

text \<open>
  \<open>isNaN(Number(s))\<close> for a string: \<open>Number\<close> trims white space, reads the empty string
  as 0, and otherwise wants a signed decimal literal (digits, fraction, exponent, or
  \<open>Infinity\<close>) or an unsigned binary, octal or hexadecimal integer literal.
\<close>

definition is_digit :: "char \<Rightarrow> bool" where
  "is_digit c = (c \<in> set ''0123456789'')"

definition digits_only :: "string \<Rightarrow> bool" where
  "digits_only s = (s \<noteq> [] \<and> list_all is_digit s)"

definition exponent_part_opt :: "string \<Rightarrow> bool" where
  "exponent_part_opt s =
     (case s of
        [] \<Rightarrow> True
      | e # r \<Rightarrow>
          (e = CHR ''e'' \<or> e = CHR ''E'') \<and>
          (case r of
             [] \<Rightarrow> False
           | sg # r' \<Rightarrow>
               if sg = CHR ''+'' \<or> sg = CHR ''-'' then digits_only r' else digits_only r))"

definition unsigned_decimal :: "string \<Rightarrow> bool" where
  "unsigned_decimal s =
     (s = ''Infinity'' \<or>
      (let ip = takeWhile is_digit s; rest = dropWhile is_digit s
       in case rest of
            [] \<Rightarrow> ip \<noteq> []
          | c # r \<Rightarrow>
              if c = CHR ''.''
              then (ip \<noteq> [] \<or> takeWhile is_digit r \<noteq> [])
                     \<and> exponent_part_opt (dropWhile is_digit r)
              else ip \<noteq> [] \<and> exponent_part_opt (c # r)))"

definition signed_decimal :: "string \<Rightarrow> bool" where
  "signed_decimal s =
     (case s of
        [] \<Rightarrow> False
      | c # r \<Rightarrow> if c = CHR ''+'' \<or> c = CHR ''-'' then unsigned_decimal r
                 else unsigned_decimal s)"

definition non_decimal_integer :: "string \<Rightarrow> bool" where
  "non_decimal_integer s =
     (case s of
        z # p # ds \<Rightarrow>
          z = CHR ''0'' \<and> ds \<noteq> [] \<and>
          (if p = CHR ''x'' \<or> p = CHR ''X''
           then list_all (\<lambda>d. d \<in> set ''0123456789abcdefABCDEF'') ds
           else if p = CHR ''o'' \<or> p = CHR ''O''
           then list_all (\<lambda>d. d \<in> set ''01234567'') ds
           else if p = CHR ''b'' \<or> p = CHR ''B''
           then list_all (\<lambda>d. d \<in> set ''01'') ds
           else False)
      | _ \<Rightarrow> False)"

definition js_trim :: "string \<Rightarrow> string" where
  "js_trim s = rev (dropWhile is_space (rev (dropWhile is_space s)))"

definition isNaN_Number :: "string \<Rightarrow> bool" where
  "isNaN_Number s =
     (let t = js_trim s in \<not> (t = [] \<or> signed_decimal t \<or> non_decimal_integer t))"

text \<open>
  \<open>const [width, height] = v.split(c)\<close> and the test on the two parts. Only a string
  has a \<open>split\<close> method: on any other value the call throws a \<open>TypeError\<close>, which is not
  a typed error.
\<close>

definition malformed_pair :: "string list \<Rightarrow> bool" where
  "malformed_pair parts =
     (case parts of
        width # height # rest \<Rightarrow>
          width = [] \<or> height = [] \<or> isNaN_Number width \<or> isNaN_Number height
      | _ \<Rightarrow> True)"

fun split_failure :: "string \<Rightarrow> jsval \<Rightarrow> exn" where
  "split_failure name JNull =
     Untyped ''TypeError'' ''Cannot read properties of null (reading 'split')''"
| "split_failure name v =
     Untyped ''TypeError''
       (name @ ''.split is not a function or its return value is not iterable'')"

definition check_pair :: "string \<Rightarrow> char \<Rightarrow> string \<Rightarrow> jsval \<Rightarrow> exn + 'a \<Rightarrow> exn + 'a" where
  "check_pair name sep msg v rest =
     (if v = JUndefined then rest
      else case v of
        JStr s \<Rightarrow> throw_if (malformed_pair (js_split sep s)) msg rest
      | other \<Rightarrow> Inl (split_failure name other))"

definition video_generate_checks :: "jsval \<Rightarrow> exn + jsval" where
  "video_generate_checks request =
     (let models = get ''models'' request;
          prompt = get ''prompt'' request;
          duration = default_to (JNum (Finite 6)) (get ''duration'' request);
          loop = default_to (JBool False) (get ''loop'' request);
          aspect_ratio = default_to (JStr ''16:9'') (get ''aspect_ratio'' request);
          fps = default_to (JNum (Finite 24)) (get ''fps'' request);
          dimension = get ''dimension'' request;
          resolution = get ''resolution'' request;
          seed = get ''seed'' request;
          model_specific_params = default_to (JObj []) (get ''model_specific_params'' request)
      in case validateModelsAndPrompt models prompt of
        Inl e \<Rightarrow> Inl e
      | Inr u \<Rightarrow>
          throw_if (duration \<noteq> JUndefined \<and> not_positive_number duration)
            ''duration must be a positive number''
          (throw_if (loop \<noteq> JUndefined \<and> typeof loop \<noteq> ''boolean'')
            ''loop must be a boolean''
          (check_pair ''aspect_ratio'' (CHR '':'')
            ''aspect_ratio must be in the format 'width:height' (e.g., '16:9')''
            aspect_ratio
          (throw_if (fps \<noteq> JUndefined \<and> not_positive_number fps)
            ''fps must be a positive number''
          (check_pair ''dimension'' (CHR ''x'')
            ''dimension must be in the format 'widthxheight' (e.g., '1280x720')''
            dimension
          (throw_if (seed \<noteq> JUndefined \<and> \<not> isInteger seed)
            ''seed must be an integer''
          (throw_if (model_specific_params \<noteq> JUndefined
                      \<and> typeof model_specific_params \<noteq> ''object'')
            ''model_specific_params must be an object''
          (Inr (JObj [(''models'', models), (''prompt'', prompt), (''duration'', duration),
                      (''loop'', loop), (''aspect_ratio'', aspect_ratio), (''fps'', fps),
                      (''dimension'', dimension), (''resolution'', resolution),
                      (''seed'', seed),
                      (''model_specific_params'', model_specific_params)])))))))))"

definition video_generate :: "transport \<Rightarrow> jsval \<Rightarrow> outcome" where
  "video_generate makeRequest request =
     (if \<not> destructurable request then rejected (destructure_failure request)
      else case video_generate_checks request of
        Inl e \<Rightarrow> rejected e
      | Inr body \<Rightarrow> send makeRequest ''/video/generate'' body)"

section \<open>The transport: error classification\<close>

text \<open>
  Three functions of the JavaScript runtime are used by the classifier and are not part
  of this repository; the model takes them as given:
  \<^item> \<open>JSON.parse\<close>, \<open>None\<close> when it throws a \<open>SyntaxError\<close>;
  \<^item> \<open>JSON.stringify\<close>, \<open>None\<close> when it returns \<open>undefined\<close>;
  \<^item> the conversion of a value that is not a string to a string, as the \<open>Error\<close>
    constructor does it for its message, \<open>None\<close> when it throws a \<open>TypeError\<close>.
\<close>

record runtime =
  JSON_parse :: "string \<Rightarrow> jsval option"
  JSON_stringify :: "jsval \<Rightarrow> string option"
  ToString :: "jsval \<Rightarrow> string option"

text \<open>
  A completed HTTP exchange: the status and the body, \<open>None\<close> when \<open>response.text()\<close>
  throws.
\<close>

record response =
  http_status :: nat
  body_text :: "string option"

definition ok :: "response \<Rightarrow> bool" where
  "ok response = (200 \<le> http_status response \<and> http_status response \<le> 299)"

definition unknown_format :: string where
  "unknown_format = ''Server responded with unknown format. Please try again later.''"

definition looks_html :: "string \<Rightarrow> bool" where
  "looks_html s = (js_includes s ''<!DOCTYPE html>'' \<or> js_includes s ''<html'')"

text \<open>
  \<open>raw.includes("<!DOCTYPE html>") || raw.includes("<html")\<close> for a truthy \<open>raw\<close>: a
  substring test on a string, a membership test on an array, and a \<open>TypeError\<close>
  (\<open>None\<close>) on anything else, which has no \<open>includes\<close> method.
\<close>

fun raw_looks_html :: "jsval \<Rightarrow> bool option" where
  "raw_looks_html (JStr s) = Some (looks_html s)"
| "raw_looks_html (JArr xs) = Some (JStr ''<!DOCTYPE html>'' \<in> set xs \<or> JStr ''<html'' \<in> set xs)"
| "raw_looks_html v = None"

text \<open>The last two branches of the chain, and the initial value of \<open>errorMessage\<close>.\<close>

definition message_or_error :: "runtime \<Rightarrow> nat \<Rightarrow> jsval \<Rightarrow> jsval" where
  "message_or_error rt st errorJson =
     (if truthy (get ''message'' errorJson) then get ''message'' errorJson
      else if truthy (get ''error'' errorJson)
      then (case get ''error'' errorJson of
              JStr s \<Rightarrow> JStr s
            | v \<Rightarrow> (case JSON_stringify rt v of None \<Rightarrow> JUndefined | Some s \<Rightarrow> JStr s))
      else JStr (''Request failed with status: '' @ string_of_nat st))"

text \<open>
  The inner \<open>try\<close> after a successful \<open>JSON.parse\<close>; \<open>None\<close> when it throws: reading
  \<open>errorJson.details\<close> of \<open>null\<close>, or calling \<open>includes\<close> on a \<open>raw\<close> that has none.
\<close>

definition message_of_json :: "runtime \<Rightarrow> nat \<Rightarrow> jsval \<Rightarrow> jsval option" where
  "message_of_json rt st errorJson =
     (if errorJson = JNull then None
      else let raw = get ''raw'' (get ''details'' errorJson)
           in if truthy raw
              then (case raw_looks_html raw of
                      None \<Rightarrow> None
                    | Some html \<Rightarrow>
                        if html then Some (JStr unknown_format)
                        else Some (message_or_error rt st errorJson))
              else Some (message_or_error rt st errorJson))"

definition errorMessage :: "runtime \<Rightarrow> response \<Rightarrow> jsval" where
  "errorMessage rt response =
     (case body_text response of
        None \<Rightarrow> JStr unknown_format
      | Some errorBody \<Rightarrow>
          if looks_html errorBody then JStr unknown_format
          else (case JSON_parse rt errorBody of
                  None \<Rightarrow> JStr unknown_format
                | Some errorJson \<Rightarrow>
                    (case message_of_json rt (http_status response) errorJson of
                       None \<Rightarrow> JStr unknown_format
                     | Some m \<Rightarrow> m)))"

text \<open>
  \<open>super(message)\<close>: the \<open>Error\<close> constructor keeps a string as it is, reads \<open>undefined\<close>
  as the empty message and converts any other value.
\<close>

definition message_string :: "runtime \<Rightarrow> jsval \<Rightarrow> string option" where
  "message_string rt v =
     (case v of JStr s \<Rightarrow> Some s | JUndefined \<Rightarrow> Some [] | other \<Rightarrow> ToString rt other)"

text \<open>The \<open>switch\<close> on the status: the class, the code, and the arguments it is given.\<close>

definition classify :: "nat \<Rightarrow> string \<Rightarrow> jsval \<Rightarrow> alle_error" where
  "classify st msg errorResponse =
     (if st = 400 then InvalidRequestError msg ''INVALID_REQUEST'' errorResponse
      else if st = 401 then AuthenticationError msg ''AUTH_ERROR'' errorResponse
      else if st = 403 then AuthenticationError msg ''PERMISSION_DENIED'' errorResponse
      else if st = 404 then APIError msg ''RESOURCE_NOT_FOUND'' (Some st) errorResponse
      else if st = 429 then RateLimitError msg ''RATE_LIMIT'' errorResponse
      else if st = 500 \<or> st = 502 \<or> st = 503 \<or> st = 504
      then ServiceUnavailableError msg ''SERVICE_ERROR'' errorResponse
      else APIError msg (''API_ERROR_'' @ string_of_nat st) (Some st) errorResponse)"

text \<open>\<open>handleErrorResponse\<close> never returns: the model gives what it throws.\<close>

definition handleErrorResponse :: "runtime \<Rightarrow> response \<Rightarrow> exn" where
  "handleErrorResponse rt response =
     (let st = http_status response;
          msg = errorMessage rt response;
          errorResponse =
            JObj [(''message'', msg), (''status'', JNum (Finite (of_nat st)))]
      in case message_string rt msg of
           None \<Rightarrow> Untyped ''TypeError'' ''Cannot convert object to primitive value''
         | Some m \<Rightarrow> Typed (classify st m errorResponse))"

text \<open>
  The outer \<open>catch\<close> of \<open>makeRequest\<close> and \<open>makeFormDataRequest\<close>: a typed error is thrown
  again; a \<open>TypeError\<close> whose message contains \<open>fetch\<close> becomes a \<open>ConnectionError\<close>;
  anything else becomes an \<open>APIError\<close> with code \<open>UNEXPECTED_ERROR\<close>.
\<close>

fun caught :: "exn \<Rightarrow> alle_error" where
  "caught (Typed e) = e"
| "caught (Untyped name msg) =
     (if name = ''TypeError'' \<and> js_includes msg ''fetch''
      then ConnectionError
             ''Could not connect to the API. Please check your internet connection.''
             ''CONNECTION_ERROR'' (JObj [(''originalError'', JStr msg)])
      else APIError (''An unexpected error occurred: '' @ msg) ''UNEXPECTED_ERROR'' None
             (JObj [(''originalError'', JStr msg)]))"

text \<open>What \<open>fetch\<close> answers: it throws, or the exchange completes with a response.\<close>

datatype fetched = FetchThrows exn | FetchResponse response

text \<open>\<open>response.json()\<close>: the body read and parsed; \<open>None\<close> when either step throws.\<close>

definition response_json :: "runtime \<Rightarrow> response \<Rightarrow> jsval option" where
  "response_json rt response =
     (case body_text response of None \<Rightarrow> None | Some t \<Rightarrow> JSON_parse rt t)"

text \<open>The body of both request functions after the call of \<open>fetch\<close>.\<close>

definition settle :: "runtime \<Rightarrow> fetched \<Rightarrow> exn + jsval" where
  "settle rt answer =
     (case answer of
        FetchThrows e \<Rightarrow> Inl (Typed (caught e))
      | FetchResponse response \<Rightarrow>
          if \<not> ok response then Inl (Typed (caught (handleErrorResponse rt response)))
          else (case response_json rt response of
                  None \<Rightarrow>
                    Inl (Typed (caught (Typed (APIError
                      ''Server returned invalid JSON response'' ''INVALID_RESPONSE''
                      (Some (http_status response))
                      (JObj [(''message'', JStr ''Invalid JSON response'')])))))
                | Some data \<Rightarrow> Inr data))"

definition makeRequest :: "runtime \<Rightarrow> (string \<Rightarrow> jsval \<Rightarrow> fetched) \<Rightarrow> transport" where
  "makeRequest rt fetch endpoint body = settle rt (fetch endpoint body)"

definition makeFormDataRequest ::
    "runtime \<Rightarrow> (string \<Rightarrow> form_data \<Rightarrow> fetched) \<Rightarrow> form_transport" where
  "makeFormDataRequest rt fetch endpoint formData = settle rt (fetch endpoint formData)"

section \<open>The validators over an explicit store\<close>

text \<open>
  JavaScript passes arrays and objects by reference: the request the caller holds and the
  one a validator inspects are the same cells of the heap. To speak about what
  validation does to the caller's object, the validators are written a second time over
  an explicit store. The store is the list of the cells allocated so far, the address of
  a cell being its position; a reference value is a primitive or the address of a cell;
  a cell is an array or a plain object. An action takes the store and returns its
  outcome with the store it leaves behind. The steps of the validators are reads
  (\<open>in\<close>, a property read, \<open>Array.isArray\<close>, \<open>length\<close>, \<open>every\<close>, \<open>forEach\<close>,
  \<open>includes\<close>, \<open>Object.values\<close>), the allocation of a new object (\<open>{}\<close> as the default of
  a parameter, \<open>new ValidationError(...)\<close>), the assignments the error constructors make
  to \<open>this\<close>, and \<open>throw\<close>.
\<close>

type_synonym addr = nat

datatype ref = RUndefined | RNull | RBool bool | RNum jsnum | RStr string | RObject addr

datatype cell = ArrayCell "ref list" | ObjectCell "(string \<times> ref) list"

type_synonym store = "cell list"

type_synonym 'a action = "store \<Rightarrow> (exn + 'a) \<times> store"

definition return_value :: "'a \<Rightarrow> 'a action" where
  "return_value x s = (Inr x, s)"

definition throw :: "exn \<Rightarrow> 'a action" where
  "throw e s = (Inl e, s)"

definition read :: "(store \<Rightarrow> 'a) \<Rightarrow> 'a action" where
  "read f s = (Inr (f s), s)"

definition and_then :: "'a action \<Rightarrow> ('a \<Rightarrow> 'b action) \<Rightarrow> 'b action" where
  "and_then m k s = (case m s of (Inl e, s') \<Rightarrow> (Inl e, s') | (Inr x, s') \<Rightarrow> k x s')"

text \<open>\<open>{}\<close>, \<open>[]\<close> and \<open>new\<close>: a new cell, at the next free address.\<close>

definition allocate :: "cell \<Rightarrow> ref action" where
  "allocate c s = (Inr (RObject (length s)), s @ [c])"

text \<open>
  \<open>target[key] = v\<close> on a plain object: the property is overwritten where it stands, or
  added after the others. The source assigns only to \<open>this\<close> inside a constructor, a
  plain object; on anything else the step is left without effect.
\<close>

fun put :: "string \<Rightarrow> ref \<Rightarrow> (string \<times> ref) list \<Rightarrow> (string \<times> ref) list" where
  "put k v [] = [(k, v)]"
| "put k v (kv # kvs) = (if fst kv = k then (k, v) # kvs else kv # put k v kvs)"

definition assign :: "ref \<Rightarrow> string \<Rightarrow> ref \<Rightarrow> unit action" where
  "assign target key v s =
     (case target of
        RObject a \<Rightarrow>
          (if a < length s
           then (case s ! a of
                   ObjectCell kvs \<Rightarrow> (Inr (), s[a := ObjectCell (put key v kvs)])
                 | ArrayCell xs \<Rightarrow> (Inr (), s))
           else (Inr (), s))
      | _ \<Rightarrow> (Inr (), s))"

fun truthy_ref :: "ref \<Rightarrow> bool" where
  "truthy_ref RUndefined = False"
| "truthy_ref RNull = False"
| "truthy_ref (RBool b) = b"
| "truthy_ref (RNum n) = (n \<noteq> Finite 0 \<and> n \<noteq> NaN)"
| "truthy_ref (RStr s) = (s \<noteq> [])"
| "truthy_ref (RObject a) = True"

fun typeof_ref :: "ref \<Rightarrow> string" where
  "typeof_ref RUndefined = ''undefined''"
| "typeof_ref RNull = ''object''"
| "typeof_ref (RBool b) = ''boolean''"
| "typeof_ref (RNum n) = ''number''"
| "typeof_ref (RStr s) = ''string''"
| "typeof_ref (RObject a) = ''object''"

fun cell_at :: "store \<Rightarrow> ref \<Rightarrow> cell option" where
  "cell_at s (RObject a) = (if a < length s then Some (s ! a) else None)"
| "cell_at s r = None"

definition isArray_at :: "store \<Rightarrow> ref \<Rightarrow> bool" where
  "isArray_at s r = (case cell_at s r of Some (ArrayCell xs) \<Rightarrow> True | _ \<Rightarrow> False)"

definition elements_at :: "store \<Rightarrow> ref \<Rightarrow> ref list" where
  "elements_at s r = (case cell_at s r of Some (ArrayCell xs) \<Rightarrow> xs | _ \<Rightarrow> [])"

definition properties_at :: "store \<Rightarrow> ref \<Rightarrow> (string \<times> ref) list" where
  "properties_at s r = (case cell_at s r of Some (ObjectCell kvs) \<Rightarrow> kvs | _ \<Rightarrow> [])"

definition has_key_at :: "store \<Rightarrow> string \<Rightarrow> ref \<Rightarrow> bool" where
  "has_key_at s k r = (k \<in> set (map fst (properties_at s r)))"

definition get_at :: "store \<Rightarrow> string \<Rightarrow> ref \<Rightarrow> ref" where
  "get_at s k r = (case map_of (properties_at s r) k of None \<Rightarrow> RUndefined | Some v \<Rightarrow> v)"

fun forEach_from_at :: "nat \<Rightarrow> (ref \<Rightarrow> nat \<Rightarrow> unit action) \<Rightarrow> ref list \<Rightarrow> unit action" where
  "forEach_from_at i f [] = return_value ()"
| "forEach_from_at i f (x # xs) = and_then (f x i) (\<lambda>u. forEach_from_at (Suc i) f xs)"

definition forEach_at :: "(ref \<Rightarrow> nat \<Rightarrow> unit action) \<Rightarrow> ref \<Rightarrow> unit action" where
  "forEach_at f array = and_then (read (\<lambda>s. elements_at s array)) (forEach_from_at 0 f)"

text \<open>
  \<open>new ValidationError(msg)\<close>: \<open>Error\<close> makes the object with its message, the constructor
  of \<open>AlleAIError\<close> assigns \<open>code\<close>, \<open>status\<close>, \<open>details\<close> and \<open>name\<close>, the constructor of
  \<open>ValidationError\<close> assigns \<open>name\<close> again. (The stack trace is left out.)
\<close>

definition new_AlleAIError :: "string \<Rightarrow> string \<Rightarrow> ref \<Rightarrow> ref \<Rightarrow> ref action" where
  "new_AlleAIError msg c st d =
     and_then (allocate (ObjectCell [(''message'', RStr msg)]))
       (\<lambda>this. and_then (assign this ''code'' (RStr c))
          (\<lambda>u. and_then (assign this ''status'' st)
             (\<lambda>u. and_then (assign this ''details'' d)
                (\<lambda>u. and_then (assign this ''name'' (RStr ''AlleAIError''))
                   (\<lambda>u. return_value this)))))"

definition new_ValidationError :: "string \<Rightarrow> ref action" where
  "new_ValidationError msg =
     and_then (new_AlleAIError msg ''VALIDATION_ERROR'' RUndefined RUndefined)
       (\<lambda>this. and_then (assign this ''name'' (RStr ''ValidationError''))
          (\<lambda>u. return_value this))"

definition throw_validation :: "string \<Rightarrow> 'a action" where
  "throw_validation msg =
     and_then (new_ValidationError msg) (\<lambda>error. throw (Typed (ValidationError msg)))"

text \<open>A \<open>TypeError\<close> the engine raises is a new object too.\<close>

definition throw_type_error :: "string \<Rightarrow> 'a action" where
  "throw_type_error msg =
     and_then (allocate (ObjectCell [(''message'', RStr msg)]))
       (\<lambda>error. throw (Untyped ''TypeError'' msg))"

text \<open>Destructuring the parameter: \<open>undefined\<close> and \<open>null\<close> have no properties to read.\<close>

definition destructure :: "ref \<Rightarrow> unit action" where
  "destructure request =
     (if request = RUndefined \<or> request = RNull
      then throw_type_error
             (if request = RNull
              then ''Cannot destructure property 'models' of 'object null' as it is null.''
              else ''Cannot destructure property 'models' of 'undefined' as it is undefined.'')
      else return_value ())"

definition validateContentObject_at :: "ref \<Rightarrow> string \<Rightarrow> unit action" where
  "validateContentObject_at content path =
     and_then (read (\<lambda>s. \<not> truthy_ref content \<or> typeof_ref content \<noteq> ''object''
                          \<or> \<not> has_key_at s ''type'' content))
       (\<lambda>malformed.
          if malformed
          then throw_validation (path @ '' must be an object with a 'type' property'')
          else and_then (read (\<lambda>s. get_at s ''type'' content))
                 (\<lambda>type.
                    if type \<notin> set (map RStr validTypes)
                    then throw_validation
                           (path @ ''.type must be one of: '' @ js_join '', '' validTypes)
                    else return_value ()))"

definition validateRoleField_at :: "string \<Rightarrow> ref \<Rightarrow> unit action" where
  "validateRoleField_at key msg =
     and_then (read (\<lambda>s. has_key_at s key msg \<and> truthy_ref (get_at s key msg)))
       (\<lambda>present.
          if present
          then and_then (read (\<lambda>s. get_at s key msg))
                 (\<lambda>contents.
                    and_then (read (\<lambda>s. isArray_at s contents))
                      (\<lambda>array.
                         if \<not> array
                         then throw_validation (key @ '' must be an array of content objects'')
                         else forEach_at (\<lambda>content i.
                                validateContentObject_at content
                                  (key @ ''['' @ string_of_nat i @ '']'')) contents))
          else return_value ())"

definition validateAssistants_at :: "ref \<Rightarrow> unit action" where
  "validateAssistants_at msg =
     and_then (read (\<lambda>s. has_key_at s ''assistants'' msg
                          \<and> truthy_ref (get_at s ''assistants'' msg)))
       (\<lambda>present.
          if present
          then and_then (read (\<lambda>s. get_at s ''assistants'' msg))
                 (\<lambda>assistants.
                    and_then (read (\<lambda>s. typeof_ref assistants \<noteq> ''object''
                                         \<or> isArray_at s assistants))
                      (\<lambda>malformed.
                         if malformed
                         then throw_validation
                                ''assistants must be an object mapping models to content arrays''
                         else and_then (read (\<lambda>s. map snd (properties_at s assistants)))
                                (forEach_from_at 0 (\<lambda>contents i.
                                   and_then (read (\<lambda>s. isArray_at s contents))
                                     (\<lambda>array.
                                        if \<not> array
                                        then throw_validation
                                               (''assistants value at index '' @ string_of_nat i
                                                  @ '' must be an array'')
                                        else forEach_at (\<lambda>content j.
                                               validateContentObject_at content
                                                 (''assistants value['' @ string_of_nat j @ '']''))
                                               contents)))))
          else return_value ())"

definition validateMessageContent_at :: "ref \<Rightarrow> nat \<Rightarrow> unit action" where
  "validateMessageContent_at msg index =
     and_then (validateRoleField_at ''system'' msg)
       (\<lambda>u. and_then (validateRoleField_at ''user'' msg) (\<lambda>u. validateAssistants_at msg))"

definition validateMessage_at :: "ref \<Rightarrow> nat \<Rightarrow> unit action" where
  "validateMessage_at msg index =
     (if \<not> truthy_ref msg \<or> typeof_ref msg \<noteq> ''object''
      then throw_validation (''messages['' @ string_of_nat index @ ''] must be an object'')
      else and_then (read (\<lambda>s. has_key_at s ''system'' msg \<or> has_key_at s ''user'' msg
                                \<or> has_key_at s ''assistants'' msg))
             (\<lambda>hasValidKey.
                if \<not> hasValidKey
                then throw_validation
                       (''messages['' @ string_of_nat index
                          @ ''] must have at least one of: system, user, assistants'')
                else validateMessageContent_at msg index))"

definition validateModels_at :: "ref \<Rightarrow> unit action" where
  "validateModels_at models =
     and_then (read (\<lambda>s. \<not> truthy_ref models \<or> \<not> isArray_at s models
                          \<or> length (elements_at s models) = 0))
       (\<lambda>missing.
          if missing then throw_validation ''models must be a non-empty array of strings''
          else and_then (read (\<lambda>s. list_all (\<lambda>model. typeof_ref model = ''string'')
                                      (elements_at s models)))
                 (\<lambda>strings.
                    if \<not> strings then throw_validation ''all elements in models must be strings''
                    else return_value ()))"

definition validateRequestParameters_at :: "ref \<Rightarrow> unit action" where
  "validateRequestParameters_at request =
     and_then (destructure request)
       (\<lambda>u. and_then (read (\<lambda>s. get_at s ''models'' request))
          (\<lambda>models.
             and_then (validateModels_at models)
               (\<lambda>u. and_then (read (\<lambda>s. get_at s ''messages'' request))
                      (\<lambda>messages.
                         and_then (read (\<lambda>s. \<not> truthy_ref messages \<or> \<not> isArray_at s messages
                                              \<or> length (elements_at s messages) = 0))
                           (\<lambda>missing.
                              if missing
                              then throw_validation ''messages must be a non-empty array''
                              else forEach_at validateMessage_at messages)))))"

text \<open>
  An action preserves the store when every cell it found is left as it was, and no cell
  is added unless the action throws.
\<close>

definition preserves :: "'a action \<Rightarrow> bool" where
  "preserves m = (\<forall>s. prefix s (snd (m s)) \<and> (\<forall>x. fst (m s) = Inr x \<longrightarrow> snd (m s) = s))"

text \<open>
  The value a reference stands for, read off the store down to a given depth; below it
  an object is cut to the empty object. The validator looks six levels deep at most.
\<close>

fun value_at :: "nat \<Rightarrow> store \<Rightarrow> ref \<Rightarrow> jsval" where
  "value_at d s RUndefined = JUndefined"
| "value_at d s RNull = JNull"
| "value_at d s (RBool b) = JBool b"
| "value_at d s (RNum n) = JNum n"
| "value_at d s (RStr t) = JStr t"
| "value_at 0 s (RObject a) = JObj []"
| "value_at (Suc d) s (RObject a) =
     (case cell_at s (RObject a) of
        None \<Rightarrow> JObj []
      | Some (ArrayCell xs) \<Rightarrow> JArr (map (value_at d s) xs)
      | Some (ObjectCell kvs) \<Rightarrow> JObj (map (\<lambda>kv. (fst kv, value_at d s (snd kv))) kvs))"

text \<open>
  What \<open>typeof\<close>, a comparison or a string method can tell of the value of a variable
  without reading the store: a primitive is the value itself, an array or an object is
  an opaque object.
\<close>

fun surface :: "ref \<Rightarrow> jsval" where
  "surface RUndefined = JUndefined"
| "surface RNull = JNull"
| "surface (RBool b) = JBool b"
| "surface (RNum n) = JNum n"
| "surface (RStr t) = JStr t"
| "surface (RObject a) = JObj []"

text \<open>
  A destructuring default applies when the property is \<open>undefined\<close>; the default \<open>{}\<close> is
  a new object.
\<close>

definition default_ref :: "ref \<Rightarrow> ref \<Rightarrow> ref" where
  "default_ref d v = (if v = RUndefined then d else v)"

definition default_object :: "ref \<Rightarrow> ref action" where
  "default_object v = (if v = RUndefined then allocate (ObjectCell []) else return_value v)"

text \<open>
  The heads of the operations of the image, audio and video modules, up to the point
  where the body of the call is built: the parameter is destructured, its defaults are
  filled in, and the checks run in the order of the source.
\<close>

definition throw_if_at :: "bool \<Rightarrow> string \<Rightarrow> unit action" where
  "throw_if_at c msg = (if c then throw_validation msg else return_value ())"

definition validateModelsAndPrompt_at :: "ref \<Rightarrow> ref \<Rightarrow> unit action" where
  "validateModelsAndPrompt_at models prompt =
     and_then (validateModels_at models)
       (\<lambda>u. throw_if_at (blank_string (surface prompt)) ''prompt must be a non-empty string'')"

definition image_generate_validation_at :: "ref \<Rightarrow> unit action" where
  "image_generate_validation_at request =
     and_then (destructure request) (\<lambda>u.
     and_then (read (\<lambda>s. get_at s ''models'' request)) (\<lambda>models.
     and_then (read (\<lambda>s. get_at s ''prompt'' request)) (\<lambda>prompt.
     and_then (read (\<lambda>s. default_ref (RNum (Finite 1024)) (get_at s ''width'' request))) (\<lambda>width.
     and_then (read (\<lambda>s. default_ref (RNum (Finite 1024)) (get_at s ''height'' request))) (\<lambda>height.
     and_then (read (\<lambda>s. default_ref (RNum (Finite 1)) (get_at s ''n'' request))) (\<lambda>n.
     and_then (read (\<lambda>s. default_ref RNull (get_at s ''style_preset'' request))) (\<lambda>style_preset.
     and_then (read (\<lambda>s. default_ref RNull (get_at s ''seed'' request))) (\<lambda>seed.
     and_then (read (\<lambda>s. get_at s ''model_specific_params'' request)) (\<lambda>given.
     and_then (default_object given) (\<lambda>model_specific_params.
     and_then (validateModelsAndPrompt_at models prompt) (\<lambda>u.
     and_then (throw_if_at (width \<noteq> RUndefined \<and> not_integer_at_least 64 (surface width))
                 ''width must be an integer >= 64'') (\<lambda>u.
     and_then (throw_if_at (height \<noteq> RUndefined \<and> not_integer_at_least 64 (surface height))
                 ''height must be an integer >= 64'') (\<lambda>u.
     and_then (throw_if_at (n \<noteq> RUndefined \<and> not_integer_at_least 1 (surface n))
                 ''n must be an integer >= 1'') (\<lambda>u.
     and_then (throw_if_at (seed \<noteq> RNull \<and> seed \<noteq> RUndefined \<and> \<not> isInteger (surface seed))
                 ''seed must be an integer or null'') (\<lambda>u.
     and_then (throw_if_at (style_preset \<noteq> RNull \<and> style_preset \<noteq> RUndefined
                             \<and> typeof_ref style_preset \<noteq> ''string'')
                 ''style_preset must be a string or null'') (\<lambda>u.
     throw_if_at (model_specific_params \<noteq> RUndefined
                   \<and> (typeof_ref model_specific_params \<noteq> ''object''
                       \<or> model_specific_params = RNull))
       ''model_specific_params must be an object''))))))))))))))))"

definition image_edit_validation_at :: "ref \<Rightarrow> unit action" where
  "image_edit_validation_at request =
     and_then (destructure request) (\<lambda>u.
     and_then (read (\<lambda>s. get_at s ''models'' request)) (\<lambda>models.
     and_then (read (\<lambda>s. get_at s ''prompt'' request)) (\<lambda>prompt.
     and_then (read (\<lambda>s. get_at s ''image_file'' request)) (\<lambda>image_file.
     and_then (validateModelsAndPrompt_at models prompt) (\<lambda>u.
     throw_if_at (blank_string (surface image_file))
       ''image_file must be a non-empty string'')))))"

definition audio_generate_validation_at :: "ref \<Rightarrow> unit action" where
  "audio_generate_validation_at request =
     and_then (destructure request) (\<lambda>u.
     and_then (read (\<lambda>s. get_at s ''models'' request)) (\<lambda>models.
     and_then (read (\<lambda>s. get_at s ''prompt'' request)) (\<lambda>prompt.
     and_then (read (\<lambda>s. get_at s ''model_specific_params'' request)) (\<lambda>given.
     and_then (default_object given) (\<lambda>model_specific_params.
     and_then (validateModelsAndPrompt_at models prompt) (\<lambda>u.
     throw_if_at (model_specific_params \<noteq> RUndefined
                   \<and> typeof_ref model_specific_params \<noteq> ''object'')
       ''model_specific_params must be an object''))))))"

definition tts_validation_at :: "ref \<Rightarrow> unit action" where
  "tts_validation_at request =
     and_then (destructure request) (\<lambda>u.
     and_then (read (\<lambda>s. get_at s ''models'' request)) (\<lambda>models.
     and_then (read (\<lambda>s. get_at s ''prompt'' request)) (\<lambda>prompt.
     and_then (read (\<lambda>s. default_ref (RStr ''nova'') (get_at s ''voice'' request))) (\<lambda>voice.
     and_then (read (\<lambda>s. get_at s ''model_specific_params'' request)) (\<lambda>given.
     and_then (default_object given) (\<lambda>model_specific_params.
     and_then (validateModels_at models) (\<lambda>u.
     and_then (read (\<lambda>s. length (elements_at s models) > 1)) (\<lambda>many.
     and_then (throw_if_at many
                 ''Only one model is supported for text-to-speech processing at this time'') (\<lambda>u.
     and_then (throw_if_at (blank_string (surface prompt))
                 ''prompt must be a non-empty string'') (\<lambda>u.
     and_then (throw_if_at (truthy_ref voice \<and> typeof_ref voice \<noteq> ''string'')
                 ''voice must be a string'') (\<lambda>u.
     throw_if_at (model_specific_params \<noteq> RUndefined
                   \<and> typeof_ref model_specific_params \<noteq> ''object'')
       ''model_specific_params must be an object'')))))))))))"

definition stt_validation_at :: "ref \<Rightarrow> unit action" where
  "stt_validation_at request =
     and_then (destructure request) (\<lambda>u.
     and_then (read (\<lambda>s. get_at s ''models'' request)) (\<lambda>models.
     and_then (read (\<lambda>s. get_at s ''audio_file'' request)) (\<lambda>audio_file.
     and_then (read (\<lambda>s. get_at s ''model_specific_params'' request)) (\<lambda>given.
     and_then (default_object given) (\<lambda>model_specific_params.
     and_then (validateModels_at models) (\<lambda>u.
     and_then (read (\<lambda>s. length (elements_at s models) > 1)) (\<lambda>many.
     and_then (throw_if_at many
                 ''Only one model is supported for speech-to-text processing at this time'') (\<lambda>u.
     and_then (throw_if_at (blank_string (surface audio_file))
                 ''audio_file must be a non-empty string'') (\<lambda>u.
     throw_if_at (model_specific_params \<noteq> RUndefined
                   \<and> typeof_ref model_specific_params \<noteq> ''object'')
       ''model_specific_params must be an object'')))))))))"

text \<open>\<open>const [width, height] = v.split(c)\<close> and the test on the two parts.\<close>

definition check_pair_at :: "string \<Rightarrow> char \<Rightarrow> string \<Rightarrow> ref \<Rightarrow> unit action" where
  "check_pair_at name sep msg v =
     (if v = RUndefined then return_value ()
      else case v of
        RStr t \<Rightarrow> throw_if_at (malformed_pair (js_split sep t)) msg
      | other \<Rightarrow> throw_type_error (error_message (split_failure name (surface other))))"

definition video_generate_validation_at :: "ref \<Rightarrow> unit action" where
  "video_generate_validation_at request =
     and_then (destructure request) (\<lambda>u.
     and_then (read (\<lambda>s. get_at s ''models'' request)) (\<lambda>models.
     and_then (read (\<lambda>s. get_at s ''prompt'' request)) (\<lambda>prompt.
     and_then (read (\<lambda>s. default_ref (RNum (Finite 6)) (get_at s ''duration'' request))) (\<lambda>duration.
     and_then (read (\<lambda>s. default_ref (RBool False) (get_at s ''loop'' request))) (\<lambda>loop.
     and_then (read (\<lambda>s. default_ref (RStr ''16:9'') (get_at s ''aspect_ratio'' request)))
       (\<lambda>aspect_ratio.
     and_then (read (\<lambda>s. default_ref (RNum (Finite 24)) (get_at s ''fps'' request))) (\<lambda>fps.
     and_then (read (\<lambda>s. get_at s ''dimension'' request)) (\<lambda>dimension.
     and_then (read (\<lambda>s. get_at s ''resolution'' request)) (\<lambda>resolution.
     and_then (read (\<lambda>s. get_at s ''seed'' request)) (\<lambda>seed.
     and_then (read (\<lambda>s. get_at s ''model_specific_params'' request)) (\<lambda>given.
     and_then (default_object given) (\<lambda>model_specific_params.
     and_then (validateModelsAndPrompt_at models prompt) (\<lambda>u.
     and_then (throw_if_at (duration \<noteq> RUndefined \<and> not_positive_number (surface duration))
                 ''duration must be a positive number'') (\<lambda>u.
     and_then (throw_if_at (loop \<noteq> RUndefined \<and> typeof_ref loop \<noteq> ''boolean'')
                 ''loop must be a boolean'') (\<lambda>u.
     and_then (check_pair_at ''aspect_ratio'' (CHR '':'')
                 ''aspect_ratio must be in the format 'width:height' (e.g., '16:9')''
                 aspect_ratio) (\<lambda>u.
     and_then (throw_if_at (fps \<noteq> RUndefined \<and> not_positive_number (surface fps))
                 ''fps must be a positive number'') (\<lambda>u.
     and_then (check_pair_at ''dimension'' (CHR ''x'')
                 ''dimension must be in the format 'widthxheight' (e.g., '1280x720')''
                 dimension) (\<lambda>u.
     and_then (throw_if_at (seed \<noteq> RUndefined \<and> \<not> isInteger (surface seed))
                 ''seed must be an integer'') (\<lambda>u.
     throw_if_at (model_specific_params \<noteq> RUndefined
                   \<and> typeof_ref model_specific_params \<noteq> ''object'')
       ''model_specific_params must be an object'')))))))))))))))))))"

text \<open>
  A reference is in the store when it is a primitive or the address of a cell of
  the store; the store is closed when every reference its cells hold is in it.
\<close>

fun in_store :: "store \<Rightarrow> ref \<Rightarrow> bool" where
  "in_store s (RObject a) = (a < length s)"
| "in_store s r = True"

fun cell_refs :: "cell \<Rightarrow> ref list" where
  "cell_refs (ArrayCell xs) = xs"
| "cell_refs (ObjectCell kvs) = map snd kvs"

definition closed :: "store \<Rightarrow> bool" where
  "closed s = list_all (\<lambda>c. list_all (in_store s) (cell_refs c)) s"

text \<open>
  An action settles when every cell it found is left as it was and, unless it throws,
  nothing is added but the empty object of a parameter default.
\<close>

definition settles :: "'a action \<Rightarrow> bool" where
  "settles m =
     (\<forall>s. prefix s (snd (m s))
        \<and> (\<forall>x. fst (m s) = Inr x \<longrightarrow> snd (m s) = s \<or> snd (m s) = s @ [ObjectCell []]))"

text \<open>The same action run a second time on the store the first run left.\<close>

definition twice :: "unit action \<Rightarrow> unit action" where
  "twice m = and_then m (\<lambda>u. m)"

text \<open>Whether the checks of an operation pass, the body they build forgotten.\<close>

definition verdict :: "exn + 'a \<Rightarrow> exn + unit" where
  "verdict r = (case r of Inl e \<Rightarrow> Inl e | Inr b \<Rightarrow> Inr ())"

section \<open>Notions of the specification\<close>

text \<open>
  The \<open>models\<close> field is missing, not an array, or an empty array; likewise for
  \<open>messages\<close>.
\<close>

definition models_missing :: "jsval \<Rightarrow> bool" where
  "models_missing request =
     (\<not> isArray (get ''models'' request) \<or> get ''models'' request = JArr [])"

definition messages_missing :: "jsval \<Rightarrow> bool" where
  "messages_missing request =
     (\<not> isArray (get ''messages'' request) \<or> get ''messages'' request = JArr [])"

text \<open>
  The violations of a chat request, all of them, in the order the specification fixes:
  \<open>models\<close> before \<open>messages\<close>; the entries of \<open>messages\<close> in sequence; within an entry
  \<open>system\<close>, then \<open>user\<close>, then \<open>assistants\<close>. Each violation is the message that reports
  it. \<open>first_failure\<close> is the outcome of a validation that reports the first of them.
  There are two readings of a \<open>system\<close>, \<open>user\<close> or \<open>assistants\<close> field that is present
  with a falsy value (\<open>undefined\<close>, \<open>null\<close>, \<open>false\<close>, \<open>0\<close>, \<open>NaN\<close>, the empty string):
  in the words of the specification (\<open>stated_\<close>) it is a violation, since the value must
  be an array or a mapping; in the amended reading (no prefix) such a field is skipped.
\<close>

fun first_failure :: "string list \<Rightarrow> exn + unit" where
  "first_failure [] = Inr ()"
| "first_failure (v # later) = validation_failure v"

fun violations_from :: "nat \<Rightarrow> (jsval \<Rightarrow> nat \<Rightarrow> string list) \<Rightarrow> jsval list \<Rightarrow> string list" where
  "violations_from i g [] = []"
| "violations_from i g (x # xs) = g x i @ violations_from (Suc i) g xs"

definition content_violations :: "jsval \<Rightarrow> string \<Rightarrow> string list" where
  "content_violations content path =
     (if \<not> (truthy content \<and> typeof content = ''object'' \<and> has_key ''type'' content)
      then [path @ '' must be an object with a 'type' property'']
      else if get ''type'' content \<notin> JStr ` set validTypes
      then [path @ ''.type must be one of: text, audio_url, image_url, video_url'']
      else [])"

definition role_violations :: "string \<Rightarrow> jsval \<Rightarrow> string list" where
  "role_violations key msg =
     (if has_key key msg \<and> truthy (get key msg)
      then (if isArray (get key msg)
            then violations_from 0
                   (\<lambda>content i. content_violations content (key @ ''['' @ string_of_nat i @ '']''))
                   (elements (get key msg))
            else [key @ '' must be an array of content objects''])
      else [])"

definition assistants_violations :: "jsval \<Rightarrow> string list" where
  "assistants_violations msg =
     (if has_key ''assistants'' msg \<and> truthy (get ''assistants'' msg)
      then (case get ''assistants'' msg of
              JObj kvs \<Rightarrow>
                violations_from 0
                  (\<lambda>contents i.
                     if isArray contents
                     then violations_from 0
                            (\<lambda>content j. content_violations content
                               (''assistants value['' @ string_of_nat j @ '']''))
                            (elements contents)
                     else [''assistants value at index '' @ string_of_nat i
                             @ '' must be an array''])
                  (map snd kvs)
            | v \<Rightarrow> [''assistants must be an object mapping models to content arrays''])
      else [])"

definition message_violations :: "jsval \<Rightarrow> nat \<Rightarrow> string list" where
  "message_violations msg index =
     (if \<not> (truthy msg \<and> typeof msg = ''object'')
      then [''messages['' @ string_of_nat index @ ''] must be an object'']
      else if \<not> (has_key ''system'' msg \<or> has_key ''user'' msg \<or> has_key ''assistants'' msg)
      then [''messages['' @ string_of_nat index
              @ ''] must have at least one of: system, user, assistants'']
      else role_violations ''system'' msg @ role_violations ''user'' msg
             @ assistants_violations msg)"

definition models_violations :: "jsval \<Rightarrow> string list" where
  "models_violations request =
     (if models_missing request then [''models must be a non-empty array of strings'']
      else if \<exists>model \<in> set (elements (get ''models'' request)). typeof model \<noteq> ''string''
      then [''all elements in models must be strings'']
      else [])"

definition messages_violations :: "jsval \<Rightarrow> string list" where
  "messages_violations request =
     (if messages_missing request then [''messages must be a non-empty array'']
      else violations_from 0 message_violations (elements (get ''messages'' request)))"

definition request_violations :: "jsval \<Rightarrow> string list" where
  "request_violations request = models_violations request @ messages_violations request"

definition stated_role_violations :: "string \<Rightarrow> jsval \<Rightarrow> string list" where
  "stated_role_violations key msg =
     (if has_key key msg
      then (if isArray (get key msg)
            then violations_from 0
                   (\<lambda>content i. content_violations content (key @ ''['' @ string_of_nat i @ '']''))
                   (elements (get key msg))
            else [key @ '' must be an array of content objects''])
      else [])"

definition stated_assistants_violations :: "jsval \<Rightarrow> string list" where
  "stated_assistants_violations msg =
     (if has_key ''assistants'' msg
      then (case get ''assistants'' msg of
              JObj kvs \<Rightarrow>
                violations_from 0
                  (\<lambda>contents i.
                     if isArray contents
                     then violations_from 0
                            (\<lambda>content j. content_violations content
                               (''assistants value['' @ string_of_nat j @ '']''))
                            (elements contents)
                     else [''assistants value at index '' @ string_of_nat i
                             @ '' must be an array''])
                  (map snd kvs)
            | v \<Rightarrow> [''assistants must be an object mapping models to content arrays''])
      else [])"

definition stated_message_violations :: "jsval \<Rightarrow> nat \<Rightarrow> string list" where
  "stated_message_violations msg index =
     (if \<not> (truthy msg \<and> typeof msg = ''object'')
      then [''messages['' @ string_of_nat index @ ''] must be an object'']
      else if \<not> (has_key ''system'' msg \<or> has_key ''user'' msg \<or> has_key ''assistants'' msg)
      then [''messages['' @ string_of_nat index
              @ ''] must have at least one of: system, user, assistants'']
      else stated_role_violations ''system'' msg @ stated_role_violations ''user'' msg
             @ stated_assistants_violations msg)"

definition stated_request_violations :: "jsval \<Rightarrow> string list" where
  "stated_request_violations request =
     models_violations request
       @ (if messages_missing request then [''messages must be a non-empty array'']
          else violations_from 0 stated_message_violations (elements (get ''messages'' request)))"

text \<open>No field of the message is present with a falsy value.\<close>

definition no_falsy_field :: "jsval \<Rightarrow> bool" where
  "no_falsy_field msg =
     list_all (\<lambda>key. has_key key msg \<longrightarrow> truthy (get key msg)) [''system'', ''user'', ''assistants'']"

text \<open>
  A validation outcome is a normal return or a typed validation failure; a field is
  well-typed for \<open>split\<close> when it is absent or a string.
\<close>

fun is_validation_error :: "exn \<Rightarrow> bool" where
  "is_validation_error (Typed e) = (kind e = Validation)"
| "is_validation_error (Untyped name msg) = False"

definition validation_outcome :: "exn + 'a \<Rightarrow> bool" where
  "validation_outcome r = (case r of Inr v \<Rightarrow> True | Inl e \<Rightarrow> is_validation_error e)"

definition string_or_absent :: "jsval \<Rightarrow> bool" where
  "string_or_absent v = (v = JUndefined \<or> typeof v = ''string'')"

text \<open>
  The status table of the specification: the kind and the code for each status, and the
  status the class of that kind stores in its instances.
\<close>

definition table_kind :: "nat \<Rightarrow> error_kind" where
  "table_kind st =
     (if st = 400 then InvalidRequest
      else if st \<in> {401, 403} then Authentication
      else if st = 429 then RateLimit
      else if st \<in> {500, 502, 503, 504} then ServiceUnavailable
      else API)"

definition table_code :: "nat \<Rightarrow> string" where
  "table_code st =
     (if st = 400 then ''INVALID_REQUEST''
      else if st = 401 then ''AUTH_ERROR''
      else if st = 403 then ''PERMISSION_DENIED''
      else if st = 404 then ''RESOURCE_NOT_FOUND''
      else if st = 429 then ''RATE_LIMIT''
      else if st \<in> {500, 502, 503, 504} then ''SERVICE_ERROR''
      else ''API_ERROR_'' @ string_of_nat st)"

definition stored_status :: "nat \<Rightarrow> nat" where
  "stored_status st =
     (if st = 403 then 401 else if st \<in> {500, 502, 504} then 503 else st)"

text \<open>
  The message derivation in the words of the specification: the \<open>details.raw\<close> of a
  parsed body, and whether it holds one of the two markers (a string that contains one,
  an array that has one as an element). The rule is stated for the parsed bodies whose
  inspection does not throw, the ones called plain here: the body is not \<open>null\<close> and its
  \<open>details.raw\<close> is absent, falsy, a string or an array.
\<close>

definition raw_of :: "jsval \<Rightarrow> jsval" where
  "raw_of errorJson = get ''raw'' (get ''details'' errorJson)"

definition plain_body :: "jsval \<Rightarrow> bool" where
  "plain_body errorJson =
     (errorJson \<noteq> JNull
      \<and> (\<not> truthy (raw_of errorJson) \<or> typeof (raw_of errorJson) = ''string''
          \<or> isArray (raw_of errorJson)))"

definition html_in_raw :: "jsval \<Rightarrow> bool" where
  "html_in_raw errorJson =
     (case raw_of errorJson of
        JStr s \<Rightarrow> looks_html s
      | JArr xs \<Rightarrow> JStr ''<!DOCTYPE html>'' \<in> set xs \<or> JStr ''<html'' \<in> set xs
      | v \<Rightarrow> False)"

definition stringified :: "runtime \<Rightarrow> jsval \<Rightarrow> jsval" where
  "stringified rt v =
     (case v of
        JStr s \<Rightarrow> JStr s
      | other \<Rightarrow> (case JSON_stringify rt other of None \<Rightarrow> JUndefined | Some s \<Rightarrow> JStr s))"

subsection \<open>Valid requests\<close>

text \<open>
  A valid request, in the words of the specification and with the field types the
  library declares (\<open>types.ts\<close>): a mapping of named fields in which every required field
  is present and of the right shape, and every optional field that has a rule is either
  absent or within its rule. The model list is a non-empty array of strings (exactly one
  for text-to-speech and speech-to-text); a prompt or a file name is a string that is
  not empty after trimming; a content item is an object whose \<open>type\<close> is one of the four
  kinds; \<open>system\<close> and \<open>user\<close> hold arrays of content items, \<open>assistants\<close> a mapping to
  such arrays; a message entry holds at least one of the three; width and height are
  whole numbers from 64, \<open>n\<close> from 1; a seed is a whole number (or \<open>null\<close> for an image);
  duration and fps are positive; an aspect ratio is two decimal numerals around a colon,
  a dimension two around an \<open>x\<close>.
\<close>

fun plain_object :: "jsval \<Rightarrow> bool" where
  "plain_object (JObj kvs) = True"
| "plain_object v = False"

fun text_value :: "jsval \<Rightarrow> bool" where
  "text_value (JStr t) = True"
| "text_value v = False"

fun filled_text :: "jsval \<Rightarrow> bool" where
  "filled_text (JStr t) = (\<not> trims_to_empty t)"
| "filled_text v = False"

fun boolean_value :: "jsval \<Rightarrow> bool" where
  "boolean_value (JBool b) = True"
| "boolean_value v = False"

fun whole_number :: "jsval \<Rightarrow> bool" where
  "whole_number (JNum (Finite q)) = (of_int \<lfloor>q\<rfloor> = q)"
| "whole_number v = False"

fun whole_number_from :: "rat \<Rightarrow> jsval \<Rightarrow> bool" where
  "whole_number_from k (JNum (Finite q)) = (of_int \<lfloor>q\<rfloor> = q \<and> k \<le> q)"
| "whole_number_from k v = False"

fun positive_number :: "jsval \<Rightarrow> bool" where
  "positive_number (JNum (Finite q)) = (0 < q)"
| "positive_number v = False"

fun model_list :: "jsval \<Rightarrow> bool" where
  "model_list (JArr ms) = (ms \<noteq> [] \<and> list_all text_value ms)"
| "model_list v = False"

fun single_model :: "jsval \<Rightarrow> bool" where
  "single_model (JArr ms) = (length ms = 1 \<and> list_all text_value ms)"
| "single_model v = False"

definition absent_or :: "(jsval \<Rightarrow> bool) \<Rightarrow> jsval \<Rightarrow> bool" where
  "absent_or P v = (v = JUndefined \<or> P v)"

definition null_or :: "(jsval \<Rightarrow> bool) \<Rightarrow> jsval \<Rightarrow> bool" where
  "null_or P v = (v = JNull \<or> P v)"

definition decimal_numeral :: "string \<Rightarrow> bool" where
  "decimal_numeral t =
     (takeWhile is_digit t \<noteq> [] \<and>
      (case dropWhile is_digit t of
         [] \<Rightarrow> True
       | c # fraction \<Rightarrow> c = CHR ''.'' \<and> digits_only fraction))"

fun number_pair :: "char \<Rightarrow> jsval \<Rightarrow> bool" where
  "number_pair sep (JStr t) =
     (case js_split sep t of
        [w, h] \<Rightarrow> decimal_numeral w \<and> decimal_numeral h
      | parts \<Rightarrow> False)"
| "number_pair sep v = False"

definition content_item :: "jsval \<Rightarrow> bool" where
  "content_item c = (plain_object c \<and> get ''type'' c \<in> set (map JStr validTypes))"

fun content_list :: "jsval \<Rightarrow> bool" where
  "content_list (JArr cs) = list_all content_item cs"
| "content_list v = False"

fun assistants_mapping :: "jsval \<Rightarrow> bool" where
  "assistants_mapping (JObj kvs) = list_all (\<lambda>kv. content_list (snd kv)) kvs"
| "assistants_mapping v = False"

definition message_entry :: "jsval \<Rightarrow> bool" where
  "message_entry m =
     (plain_object m
      \<and> (has_key ''system'' m \<or> has_key ''user'' m \<or> has_key ''assistants'' m)
      \<and> (\<not> has_key ''system'' m \<or> content_list (get ''system'' m))
      \<and> (\<not> has_key ''user'' m \<or> content_list (get ''user'' m))
      \<and> (\<not> has_key ''assistants'' m \<or> assistants_mapping (get ''assistants'' m)))"

fun message_list :: "jsval \<Rightarrow> bool" where
  "message_list (JArr ms) = (ms \<noteq> [] \<and> list_all message_entry ms)"
| "message_list v = False"

text \<open>The request kinds, one per capability, and the fields each one rules.\<close>

datatype request_kind =
    ChatCompletion | ImageGenerate | ImageEdit | AudioGenerate | TextToSpeech | SpeechToText
  | VideoGenerate

fun fields_valid :: "request_kind \<Rightarrow> jsval \<Rightarrow> bool" where
  "fields_valid ChatCompletion r =
     (model_list (get ''models'' r) \<and> message_list (get ''messages'' r))"
| "fields_valid ImageGenerate r =
     (model_list (get ''models'' r) \<and> filled_text (get ''prompt'' r)
      \<and> absent_or (whole_number_from 64) (get ''width'' r)
      \<and> absent_or (whole_number_from 64) (get ''height'' r)
      \<and> absent_or (whole_number_from 1) (get ''n'' r)
      \<and> absent_or (null_or whole_number) (get ''seed'' r)
      \<and> absent_or (null_or text_value) (get ''style_preset'' r)
      \<and> absent_or plain_object (get ''model_specific_params'' r))"
| "fields_valid ImageEdit r =
     (model_list (get ''models'' r) \<and> filled_text (get ''prompt'' r)
      \<and> filled_text (get ''image_file'' r))"
| "fields_valid AudioGenerate r =
     (model_list (get ''models'' r) \<and> filled_text (get ''prompt'' r)
      \<and> absent_or plain_object (get ''model_specific_params'' r))"
| "fields_valid TextToSpeech r =
     (single_model (get ''models'' r) \<and> filled_text (get ''prompt'' r)
      \<and> absent_or text_value (get ''voice'' r)
      \<and> absent_or plain_object (get ''model_specific_params'' r))"
| "fields_valid SpeechToText r =
     (single_model (get ''models'' r) \<and> filled_text (get ''audio_file'' r)
      \<and> absent_or plain_object (get ''model_specific_params'' r))"
| "fields_valid VideoGenerate r =
     (model_list (get ''models'' r) \<and> filled_text (get ''prompt'' r)
      \<and> absent_or positive_number (get ''duration'' r)
      \<and> absent_or boolean_value (get ''loop'' r)
      \<and> absent_or (number_pair (CHR '':'')) (get ''aspect_ratio'' r)
      \<and> absent_or positive_number (get ''fps'' r)
      \<and> absent_or (number_pair (CHR ''x'')) (get ''dimension'' r)
      \<and> absent_or whole_number (get ''seed'' r)
      \<and> absent_or plain_object (get ''model_specific_params'' r))"

definition valid_request :: "request_kind \<Rightarrow> jsval \<Rightarrow> bool" where
  "valid_request variant r = (plain_object r \<and> fields_valid variant r)"

text \<open>The validation the library runs on a request of each kind.\<close>

fun validation_at :: "request_kind \<Rightarrow> ref \<Rightarrow> unit action" where
  "validation_at ChatCompletion = validateRequestParameters_at"
| "validation_at ImageGenerate = image_generate_validation_at"
| "validation_at ImageEdit = image_edit_validation_at"
| "validation_at AudioGenerate = audio_generate_validation_at"
| "validation_at TextToSpeech = tts_validation_at"
| "validation_at SpeechToText = stt_validation_at"
| "validation_at VideoGenerate = video_generate_validation_at"

section \<open>Collaborators used in the examples\<close>

text \<open>A transport that resolves every call with an empty object.\<close>

definition resolving :: transport where
  "resolving endpoint body = Inr (JObj [])"

text \<open>A multipart transport that resolves every call with an empty object.\<close>

definition resolving_form :: form_transport where
  "resolving_form endpoint formData = Inr (JObj [])"

text \<open>A file reader that finds every file.\<close>

definition reading :: file_reader where
  "reading path type = Inr (''bytes'', ''upload'')"

text \<open>
  A runtime described at the three bodies of the examples only: \<open>JSON.parse\<close> reads
  them as the real one does; the other two functions are never reached there.
\<close>

definition parsing :: "string \<Rightarrow> jsval option" where
  "parsing =
     [''{}'' \<mapsto> JObj [],
      ''{\"message\":\"bad field\"}'' \<mapsto> JObj [(''message'', JStr ''bad field'')],
      ''{\"message\":\"Invalid API key\"}'' \<mapsto> JObj [(''message'', JStr ''Invalid API key'')]]"

definition sample_runtime :: runtime where
  "sample_runtime =
     \<lparr>JSON_parse = parsing, JSON_stringify = Map.empty, ToString = Map.empty\<rparr>"

text \<open>
  Two answers of \<open>fetch\<close>: the connection is refused and node-fetch throws its
  \<open>FetchError\<close>; and a multipart exchange that completes with status 401.
\<close>

definition refused :: "string \<Rightarrow> jsval \<Rightarrow> fetched" where
  "refused endpoint body =
     FetchThrows (Untyped ''FetchError''
       ''request to https://api.alle-ai.com/api/v1/chat/completions failed, reason: connect ECONNREFUSED 127.0.0.1:443'')"

definition unauthorized :: "string \<Rightarrow> form_data \<Rightarrow> fetched" where
  "unauthorized endpoint formData =
     FetchResponse \<lparr>http_status = 401,
                    body_text = Some ''{\"message\":\"Invalid API key\"}''\<rparr>"

text \<open>A chat request with three violations, in two of its three messages.\<close>

definition three_faults :: jsval where
  "three_faults =
     JObj [(''models'', JArr [JStr ''gpt-4o'']),
           (''messages'',
              JArr [JObj [(''user'', JArr [JObj [(''type'', JStr ''text'')]])],
                    JObj [(''system'', JArr [JObj [(''type'', JStr ''text'')]]),
                          (''user'', JArr [JObj [(''type'', JStr ''speech'')]]),
                          (''assistants'', JArr [])],
                    JObj []])]"

text \<open>Requests of the examples.\<close>

definition edit_request :: jsval where
  "edit_request =
     JObj [(''models'', JArr [JStr ''dall-e-3'']), (''prompt'', JStr ''Add a sunset''),
           (''image_file'', JStr ''./input.jpg'')]"

definition stt_request :: jsval where
  "stt_request =
     JObj [(''models'', JArr [JStr ''whisper'']), (''audio_file'', JStr ''./audio.mp3'')]"

definition chat_request :: jsval where
  "chat_request =
     JObj [(''models'', JArr [JStr ''gpt-4o'']),
           (''messages'', JArr [JObj [(''user'', JArr [JObj [(''type'', JStr ''text''),
                                                             (''text'', JStr ''Hello'')]])]])]"

definition numeric_ratio_request :: jsval where
  "numeric_ratio_request =
     JObj [(''models'', JArr [JStr ''veo-2'']), (''prompt'', JStr ''a river''),
           (''aspect_ratio'', JNum (Finite 2))]"

text \<open>
  A store that holds one valid request of every kind: the chat request at address 0, an
  image generation at 6, an image edit at 8 (it shares its model list with the request
  at 6), an audio generation at 9, a text-to-speech request at 12, a speech-to-text
  request at 14 and a video generation at 16.
\<close>

definition request_store :: store where
  "request_store =
     [ObjectCell [(''models'', RObject 1), (''messages'', RObject 2)],
      ArrayCell [RStr ''gpt-4o''],
      ArrayCell [RObject 3],
      ObjectCell [(''user'', RObject 4)],
      ArrayCell [RObject 5],
      ObjectCell [(''type'', RStr ''text''), (''text'', RStr ''Hello'')],
      ObjectCell [(''models'', RObject 7), (''prompt'', RStr ''a lighthouse at dusk''),
                  (''width'', RNum (Finite 512)), (''seed'', RNull)],
      ArrayCell [RStr ''dall-e-3'', RStr ''grok-2-image''],
      ObjectCell [(''models'', RObject 7), (''prompt'', RStr ''add a sunset''),
                  (''image_file'', RStr ''./input.jpg'')],
      ObjectCell [(''models'', RObject 10), (''prompt'', RStr ''a soothing melody''),
                  (''model_specific_params'', RObject 11)],
      ArrayCell [RStr ''lyria''],
      ObjectCell [],
      ObjectCell [(''models'', RObject 13), (''prompt'', RStr ''welcome''),
                  (''voice'', RStr ''nova'')],
      ArrayCell [RStr ''gpt-4o-mini-tts''],
      ObjectCell [(''models'', RObject 15), (''audio_file'', RStr ''./audio.mp3'')],
      ArrayCell [RStr ''gpt-4o-transcribe''],
      ObjectCell [(''models'', RObject 17), (''prompt'', RStr ''a river''),
                  (''duration'', RNum (Finite 6)), (''aspect_ratio'', RStr ''16:9''),
                  (''dimension'', RStr ''1280x720''), (''seed'', RNum (Finite 8))],
      ArrayCell [RStr ''nova-reel'', RStr ''veo-2'']]"

text \<open>A speech request that names two models, and one that names one.\<close>

definition two_voices :: jsval where
  "two_voices =
     JObj [(''models'', JArr [JStr ''tts-1'', JStr ''tts-2'']), (''prompt'', JStr ''hello''),
           (''audio_file'', JStr ''./audio.mp3'')]"

definition one_voice :: jsval where
  "one_voice =
     JObj [(''models'', JArr [JStr ''tts-1'']), (''prompt'', JStr ''hello''),
           (''audio_file'', JStr ''./audio.mp3'')]"

text \<open>
  A chat request whose only message has a \<open>system\<close> field of 0 and a content item of an
  unknown type under \<open>user\<close>.
\<close>

definition falsy_system :: jsval where
  "falsy_system =
     JObj [(''models'', JArr [JStr ''gpt-4o'']),
           (''messages'',
              JArr [JObj [(''system'', JNum (Finite 0)),
                          (''user'', JArr [JObj [(''type'', JStr ''speech'')]])]])]"

section \<open>Properties\<close>

subsection \<open>Auxiliary facts\<close>

lemma get_JArr_destructurable: "get k request = JArr ms \<Longrightarrow> destructurable request"
  by (cases request) (auto simp: destructurable_def)

lemma models_missing_rejected:
  "models_missing request \<Longrightarrow>
     validateModels (get ''models'' request)
       = validation_failure ''models must be a non-empty array of strings''"
  by (cases "get ''models'' request") (auto simp: models_missing_def validateModels_def)

lemma messages_missing_rejected:
  assumes "destructurable request" "validateModels (get ''models'' request) = Inr ()"
    "messages_missing request"
  shows "validateRequestParameters request
           = validation_failure ''messages must be a non-empty array''"
  using assms
  by (cases "get ''messages'' request")
     (auto simp: messages_missing_def validateRequestParameters_def Let_def)

subsection \<open>The model list is checked before anything is sent\<close>

text \<open>
  Nine of the ten operations check \<open>models\<close> first: a request whose \<open>models\<close> is missing,
  not an array or empty is rejected with the validation error of the model-list check,
  and the transport is not called.
\<close>

lemma models_checked_before_transport:
  assumes "destructurable request" "models_missing request"
  shows "completions mk request
           = rejected (Typed (ValidationError ''models must be a non-empty array of strings''))"
    and "combination mk request
           = rejected (Typed (ValidationError ''models must be a non-empty array of strings''))"
    and "search mk request
           = rejected (Typed (ValidationError ''models must be a non-empty array of strings''))"
    and "image_generate mk request
           = rejected (Typed (ValidationError ''models must be a non-empty array of strings''))"
    and "image_edit readFile mkForm request
           = rejected (Typed (ValidationError ''models must be a non-empty array of strings''))"
    and "audio_generate mk request
           = rejected (Typed (ValidationError ''models must be a non-empty array of strings''))"
    and "tts mk request
           = rejected (Typed (ValidationError ''models must be a non-empty array of strings''))"
    and "stt readFile mkForm request
           = rejected (Typed (ValidationError ''models must be a non-empty array of strings''))"
    and "video_generate mk request
           = rejected (Typed (ValidationError ''models must be a non-empty array of strings''))"
  using assms models_missing_rejected[OF assms(2)]
  by (simp_all add: completions_def combination_def search_def validateRequestParameters_def
      image_generate_def image_generate_checks_def image_edit_def image_edit_checks_def
      audio_generate_def audio_generate_checks_def tts_def tts_checks_def stt_def stt_checks_def
      video_generate_def video_generate_checks_def validateModelsAndPrompt_def
      validation_failure_def Let_def)

text \<open>
  Claim C1: in every operation, chat comparison included, a request whose \<open>models\<close> is
  missing, not an array or empty fails validation and no transport call is made.
  \<open>comparison\<close> does not validate: given a request with an empty model list it calls the
  transport once, with that request, and returns what the transport returns.
\<close>

theorem comparison_sends_empty_models:
  "get ''models'' (JObj [(''models'', JArr [])]) = JArr []
   \<and> comparison resolving (JObj [(''models'', JArr [])])
       = (Inr (JObj []), [JsonCall ''/chat/comparison'' (JObj [(''models'', JArr [])])])
   \<and> completions resolving (JObj [(''models'', JArr [])])
       = (Inl (Typed (ValidationError ''models must be a non-empty array of strings'')), [])"
  by (simp add: comparison_def send_def resolving_def completions_def
      validateRequestParameters_def destructurable_def validateModels_def
      validation_failure_def rejected_def)

subsection \<open>The message list must not be empty\<close>

text \<open>
  Claim C10, as amended: a chat request (completions, combination, search) that passes
  the model-list check and whose \<open>messages\<close> is missing, not an array or empty is
  rejected with \<open>messages must be a non-empty array\<close>, and nothing is sent.
\<close>

theorem messages_must_be_non_empty:
  assumes "destructurable request" "validateModels (get ''models'' request) = Inr ()"
    "messages_missing request"
  shows "completions mk request
           = rejected (Typed (ValidationError ''messages must be a non-empty array''))
       \<and> combination mk request
           = rejected (Typed (ValidationError ''messages must be a non-empty array''))
       \<and> search mk request
           = rejected (Typed (ValidationError ''messages must be a non-empty array''))"
  using messages_missing_rejected[OF assms]
  by (simp add: completions_def combination_def search_def validation_failure_def)

theorem messages_must_be_non_empty_witness:
  "completions resolving (JObj [(''models'', JArr [JStr ''gpt-4o'']), (''messages'', JArr [])])
           = rejected (Typed (ValidationError ''messages must be a non-empty array''))
   \<and> combination resolving (JObj [(''models'', JArr [JStr ''gpt-4o'']), (''messages'', JArr [])])
           = rejected (Typed (ValidationError ''messages must be a non-empty array''))
   \<and> search resolving (JObj [(''models'', JArr [JStr ''gpt-4o'']), (''messages'', JArr [])])
           = rejected (Typed (ValidationError ''messages must be a non-empty array''))"
  by (rule messages_must_be_non_empty)
     (simp_all add: destructurable_def validateModels_def messages_missing_def)

text \<open>
  Claim C10 as stated fails when the model list is missing too: the model-list check
  comes first, and its message is the one reported.
\<close>

theorem messages_message_counterexample:
  "messages_missing (JObj [(''models'', JArr []), (''messages'', JArr [])])
   \<and> completions resolving (JObj [(''models'', JArr []), (''messages'', JArr [])])
       = rejected (Typed (ValidationError ''models must be a non-empty array of strings''))
   \<and> ValidationError ''models must be a non-empty array of strings''
       \<noteq> ValidationError ''messages must be a non-empty array''"
  by (simp add: completions_def validateRequestParameters_def destructurable_def
      validateModels_def validation_failure_def ValidationError_def messages_missing_def)

subsection \<open>Text-to-speech and speech-to-text take one model\<close>

lemma tts_many:
  assumes "get ''models'' request = JArr ms" "length ms > 1"
  shows "tts_checks request = validation_failure
     (if list_all (\<lambda>model. typeof model = ''string'') ms
      then ''Only one model is supported for text-to-speech processing at this time''
      else ''all elements in models must be strings'')"
  using assms
  by (auto simp: tts_checks_def validateModels_def Let_def throw_if_def validation_failure_def)

lemma stt_many:
  assumes "get ''models'' request = JArr ms" "length ms > 1"
  shows "stt_checks request = validation_failure
     (if list_all (\<lambda>model. typeof model = ''string'') ms
      then ''Only one model is supported for speech-to-text processing at this time''
      else ''all elements in models must be strings'')"
  using assms
  by (auto simp: stt_checks_def validateModels_def Let_def throw_if_def validation_failure_def)

lemma string_of_nat_zero: "string_of_nat 0 = ''0''"
  by (simp add: string_of_nat.simps digit_char_def)

text \<open>
  Claim C7: a text-to-speech or speech-to-text request whose \<open>models\<close> has more than one
  element is rejected before anything is sent, with the message of the single-model
  check (or, if an element is no string, with the one of the element check), neither of
  them the message of the non-empty check. With one model the single-model check passes:
  the outcome is that of the checks that follow it, and a request that passes those is
  sent.
\<close>

theorem single_model_constraint:
  assumes "get ''models'' request = JArr ms"
  shows "(1 < length ms \<longrightarrow>
            tts mk request = rejected (Typed (ValidationError
              (if list_all (\<lambda>model. typeof model = ''string'') ms
               then ''Only one model is supported for text-to-speech processing at this time''
               else ''all elements in models must be strings'')))
          \<and> stt readFile mkForm request = rejected (Typed (ValidationError
              (if list_all (\<lambda>model. typeof model = ''string'') ms
               then ''Only one model is supported for speech-to-text processing at this time''
               else ''all elements in models must be strings'')))
          \<and> ''Only one model is supported for text-to-speech processing at this time''
              \<noteq> ''models must be a non-empty array of strings''
          \<and> ''Only one model is supported for speech-to-text processing at this time''
              \<noteq> ''models must be a non-empty array of strings''
          \<and> ''all elements in models must be strings''
              \<noteq> ''models must be a non-empty array of strings'')
       \<and> (ms = [JStr m] \<longrightarrow>
            tts_checks request =
              (let voice = default_to (JStr ''nova'') (get ''voice'' request);
                   params = default_to (JObj []) (get ''model_specific_params'' request)
               in throw_if (blank_string (get ''prompt'' request))
                    ''prompt must be a non-empty string''
                  (throw_if (truthy voice \<and> typeof voice \<noteq> ''string'') ''voice must be a string''
                  (throw_if (params \<noteq> JUndefined \<and> typeof params \<noteq> ''object'')
                    ''model_specific_params must be an object''
                  (Inr (JObj [(''models'', JArr [JStr m]),
                              (''prompt'', get ''prompt'' request), (''voice'', voice),
                              (''model_specific_params'', params)])))))
          \<and> stt_checks request =
              (let params = default_to (JObj []) (get ''model_specific_params'' request)
               in throw_if (blank_string (get ''audio_file'' request))
                    ''audio_file must be a non-empty string''
                  (throw_if (params \<noteq> JUndefined \<and> typeof params \<noteq> ''object'')
                    ''model_specific_params must be an object'' (Inr ()))))
       \<and> (ms = [JStr m] \<and> \<not> blank_string (get ''prompt'' request)
            \<and> get ''voice'' request = JUndefined
            \<and> get ''model_specific_params'' request = JUndefined \<longrightarrow>
            tts mk request =
              send mk ''/audio/tts''
                (JObj [(''models'', JArr [JStr m]), (''prompt'', get ''prompt'' request),
                       (''voice'', JStr ''nova''), (''model_specific_params'', JObj [])]))
       \<and> (ms = [JStr m] \<and> get ''audio_file'' request = JStr path \<and> \<not> blank_string (JStr path)
            \<and> get ''model_specific_params'' request = JUndefined
            \<and> readFile path ''audio'' = Inr (buffer, filename) \<longrightarrow>
            snd (stt readFile mkForm request) =
              [FormCall ''/audio/stt''
                 [(''models[0]'', FText m), (''audio_file'', FFile buffer filename)]])"
proof (intro conjI impI)
  have d: "destructurable request"
    using assms by (rule get_JArr_destructurable)
  {
    assume many: "1 < length ms"
    show "tts mk request = rejected (Typed (ValidationError
              (if list_all (\<lambda>model. typeof model = ''string'') ms
               then ''Only one model is supported for text-to-speech processing at this time''
               else ''all elements in models must be strings'')))"
      using d tts_many[OF assms many] by (simp add: tts_def validation_failure_def)
    show "stt readFile mkForm request = rejected (Typed (ValidationError
              (if list_all (\<lambda>model. typeof model = ''string'') ms
               then ''Only one model is supported for speech-to-text processing at this time''
               else ''all elements in models must be strings'')))"
      using d stt_many[OF assms many] by (simp add: stt_def validation_failure_def)
    show "''Only one model is supported for text-to-speech processing at this time''
              \<noteq> ''models must be a non-empty array of strings''"
      by simp
    show "''Only one model is supported for speech-to-text processing at this time''
              \<noteq> ''models must be a non-empty array of strings''"
      by simp
    show "''all elements in models must be strings''
              \<noteq> ''models must be a non-empty array of strings''"
      by simp
  }
  {
    assume one: "ms = [JStr m]"
    show "tts_checks request =
              (let voice = default_to (JStr ''nova'') (get ''voice'' request);
                   params = default_to (JObj []) (get ''model_specific_params'' request)
               in throw_if (blank_string (get ''prompt'' request))
                    ''prompt must be a non-empty string''
                  (throw_if (truthy voice \<and> typeof voice \<noteq> ''string'') ''voice must be a string''
                  (throw_if (params \<noteq> JUndefined \<and> typeof params \<noteq> ''object'')
                    ''model_specific_params must be an object''
                  (Inr (JObj [(''models'', JArr [JStr m]),
                              (''prompt'', get ''prompt'' request), (''voice'', voice),
                              (''model_specific_params'', params)])))))"
      using assms one by (simp add: tts_checks_def validateModels_def throw_if_def Let_def)
    show "stt_checks request =
              (let params = default_to (JObj []) (get ''model_specific_params'' request)
               in throw_if (blank_string (get ''audio_file'' request))
                    ''audio_file must be a non-empty string''
                  (throw_if (params \<noteq> JUndefined \<and> typeof params \<noteq> ''object'')
                    ''model_specific_params must be an object'' (Inr ())))"
      using assms one by (simp add: stt_checks_def validateModels_def throw_if_def Let_def)
  }
  {
    assume h: "ms = [JStr m] \<and> \<not> blank_string (get ''prompt'' request)
            \<and> get ''voice'' request = JUndefined
            \<and> get ''model_specific_params'' request = JUndefined"
    show "tts mk request =
              send mk ''/audio/tts''
                (JObj [(''models'', JArr [JStr m]), (''prompt'', get ''prompt'' request),
                       (''voice'', JStr ''nova''), (''model_specific_params'', JObj [])])"
      using assms d h
      by (simp add: tts_def tts_checks_def validateModels_def throw_if_def Let_def default_to_def)
  }
  {
    assume h: "ms = [JStr m] \<and> get ''audio_file'' request = JStr path \<and> \<not> blank_string (JStr path)
            \<and> get ''model_specific_params'' request = JUndefined
            \<and> readFile path ''audio'' = Inr (buffer, filename)"
    show "snd (stt readFile mkForm request) =
              [FormCall ''/audio/stt''
                 [(''models[0]'', FText m), (''audio_file'', FFile buffer filename)]]"
      using assms d h
      by (simp add: stt_def stt_checks_def validateModels_def throw_if_def Let_def default_to_def
          string_of_nat_zero)
  }
qed

theorem single_model_constraint_witness:
  "tts resolving two_voices
     = rejected (Typed (ValidationError
         ''Only one model is supported for text-to-speech processing at this time''))
   \<and> stt reading resolving_form two_voices
     = rejected (Typed (ValidationError
         ''Only one model is supported for speech-to-text processing at this time''))
   \<and> tts_checks one_voice
     = Inr (JObj [(''models'', JArr [JStr ''tts-1'']), (''prompt'', JStr ''hello''),
                  (''voice'', JStr ''nova''), (''model_specific_params'', JObj [])])
   \<and> stt_checks one_voice = Inr ()
   \<and> tts resolving one_voice
     = send resolving ''/audio/tts''
         (JObj [(''models'', JArr [JStr ''tts-1'']), (''prompt'', JStr ''hello''),
                (''voice'', JStr ''nova''), (''model_specific_params'', JObj [])])
   \<and> snd (stt reading resolving_form one_voice)
     = [FormCall ''/audio/stt''
          [(''models[0]'', FText ''tts-1''), (''audio_file'', FFile ''bytes'' ''upload'')]]"
  using single_model_constraint
          [where request = two_voices and ms = "[JStr ''tts-1'', JStr ''tts-2'']"
             and mk = resolving and readFile = reading and mkForm = resolving_form]
        single_model_constraint
          [where request = one_voice and ms = "[JStr ''tts-1'']" and m = "''tts-1''"
             and mk = resolving and readFile = reading and mkForm = resolving_form
             and path = "''./audio.mp3''" and buffer = "''bytes''" and filename = "''upload''"]
  by (simp add: two_voices_def one_voice_def reading_def throw_if_def default_to_def
      trims_to_empty_def is_space_def)

subsection \<open>Validation reports the first violation\<close>

lemma first_failure_append:
  "first_failure (xs @ ys)
     = (case first_failure xs of Inl e \<Rightarrow> Inl e | Inr u \<Rightarrow> first_failure ys)"
  by (cases xs) (simp_all add: validation_failure_def)

lemma forEach_from_first:
  assumes "\<And>x i. f x i = first_failure (g x i)"
  shows "forEach_from i f xs = first_failure (violations_from i g xs)"
proof (induction xs arbitrary: i)
  case Nil
  show ?case by simp
next
  case (Cons x xs)
  show ?case
    using Cons.IH[of "Suc i"] assms[of x i]
    by (cases "g x i") (simp_all add: validation_failure_def)
qed

lemma forEach_first:
  assumes "\<And>x i. f x i = first_failure (g x i)"
  shows "forEach f xs = first_failure (violations_from 0 g xs)"
  unfolding forEach_def using assms by (rule forEach_from_first)

lemma content_first:
  "validateContentObject content path = first_failure (content_violations content path)"
  by (simp add: validateContentObject_def content_violations_def validTypes_def)

lemma role_first: "validateRoleField key msg = first_failure (role_violations key msg)"
  by (simp add: validateRoleField_def role_violations_def forEach_first[OF content_first])

lemma assistants_value_first:
  "(if \<not> isArray contents
    then validation_failure
           (''assistants value at index '' @ string_of_nat i @ '' must be an array'')
    else forEach (\<lambda>content j.
           validateContentObject content (''assistants value['' @ string_of_nat j @ '']''))
           (elements contents))
   = first_failure
       (if isArray contents
        then violations_from 0
               (\<lambda>content j. content_violations content
                  (''assistants value['' @ string_of_nat j @ '']''))
               (elements contents)
        else [''assistants value at index '' @ string_of_nat i @ '' must be an array''])"
  by (simp add: forEach_first[OF content_first])

lemma assistants_first: "validateAssistants msg = first_failure (assistants_violations msg)"
  by (cases "get ''assistants'' msg")
     (simp_all add: validateAssistants_def assistants_violations_def
        forEach_first[OF assistants_value_first])

lemma message_first: "validateMessage msg index = first_failure (message_violations msg index)"
  by (simp add: validateMessage_def message_violations_def validateMessageContent_def
      role_first assistants_first first_failure_append cong: sum.case_cong)

lemma models_first:
  "validateModels (get ''models'' request) = first_failure (models_violations request)"
  by (cases "get ''models'' request")
     (auto simp: validateModels_def models_violations_def models_missing_def list_all_iff)

lemma validation_is_first_failure:
  assumes "destructurable request"
  shows "validateRequestParameters request = first_failure (request_violations request)"
proof -
  have "(let messages = get ''messages'' request in
           if \<not> truthy messages \<or> \<not> isArray messages \<or> length (elements messages) = 0
           then validation_failure ''messages must be a non-empty array''
           else forEach validateMessage (elements messages))
        = first_failure (messages_violations request)"
    by (cases "get ''messages'' request")
       (simp_all add: messages_violations_def messages_missing_def
          forEach_first[OF message_first])
  then show ?thesis
    using assms
    by (simp add: validateRequestParameters_def request_violations_def first_failure_append
        models_first cong: sum.case_cong)
qed

lemma role_violations_skip:
  "role_violations key msg
     = (if has_key key msg \<and> \<not> truthy (get key msg) then []
        else stated_role_violations key msg)"
  by (simp add: role_violations_def stated_role_violations_def)

lemma assistants_violations_skip:
  "assistants_violations msg
     = (if has_key ''assistants'' msg \<and> \<not> truthy (get ''assistants'' msg) then []
        else stated_assistants_violations msg)"
  by (simp add: assistants_violations_def stated_assistants_violations_def)

lemma message_violations_none:
  "stated_message_violations msg index = [] \<Longrightarrow> message_violations msg index = []"
  by (auto simp: stated_message_violations_def message_violations_def role_violations_skip
      assistants_violations_skip split: if_splits)

lemma violations_from_none:
  assumes "\<And>x i. g x i = [] \<Longrightarrow> g' x i = []"
  shows "violations_from i g xs = [] \<Longrightarrow> violations_from i g' xs = []"
  by (induction xs arbitrary: i) (auto intro: assms)

lemma request_violations_none:
  "stated_request_violations request = [] \<Longrightarrow> request_violations request = []"
  by (auto simp: stated_request_violations_def request_violations_def messages_violations_def
      split: if_splits intro: violations_from_none[OF message_violations_none])

lemma violations_from_cong:
  assumes "\<And>x i. x \<in> set xs \<Longrightarrow> g x i = g' x i"
  shows "violations_from i g xs = violations_from i g' xs"
  using assms by (induction xs arbitrary: i) auto

lemma stated_is_checked:
  assumes "list_all no_falsy_field (elements (get ''messages'' request))"
  shows "stated_request_violations request = request_violations request"
proof -
  have "stated_message_violations msg index = message_violations msg index"
    if "msg \<in> set (elements (get ''messages'' request))" for msg index
    using that assms
    by (auto simp: list_all_iff no_falsy_field_def stated_message_violations_def
        message_violations_def role_violations_skip assistants_violations_skip)
  then have "violations_from 0 stated_message_violations (elements (get ''messages'' request))
           = violations_from 0 message_violations (elements (get ''messages'' request))"
    by (rule violations_from_cong)
  then show ?thesis
    by (simp add: stated_request_violations_def request_violations_def messages_violations_def)
qed

text \<open>
  Claim C6, as amended: a chat request with more than one violation is rejected with the
  first of them in the fixed order (\<open>models\<close> before \<open>messages\<close>, entries in sequence,
  within an entry \<open>system\<close>, \<open>user\<close>, \<open>assistants\<close>), never with a later one or with
  several, and nothing is sent; a \<open>system\<close>, \<open>user\<close> or \<open>assistants\<close> field that is present
  with a falsy value is skipped and counts as no violation. Where no message has such a
  field, the violation reported is the first in the words of the specification.
\<close>

theorem first_violation_reported:
  assumes "destructurable request"
  shows "(request_violations request = v # later \<longrightarrow>
            validateRequestParameters request = validation_failure v
          \<and> completions mk request = rejected (Typed (ValidationError v))
          \<and> combination mk request = rejected (Typed (ValidationError v))
          \<and> search mk request = rejected (Typed (ValidationError v)))
       \<and> (list_all no_falsy_field (elements (get ''messages'' request))
            \<and> stated_request_violations request = v # later \<longrightarrow>
            validateRequestParameters request = validation_failure v
          \<and> completions mk request = rejected (Typed (ValidationError v))
          \<and> combination mk request = rejected (Typed (ValidationError v))
          \<and> search mk request = rejected (Typed (ValidationError v)))"
proof -
  have reported: "validateRequestParameters request = validation_failure v
          \<and> completions mk request = rejected (Typed (ValidationError v))
          \<and> combination mk request = rejected (Typed (ValidationError v))
          \<and> search mk request = rejected (Typed (ValidationError v))"
    if "request_violations request = v # later"
    using validation_is_first_failure[OF assms] that
    by (simp add: completions_def combination_def search_def validation_failure_def)
  show ?thesis
    using reported stated_is_checked[of request] by auto
qed

lemma three_faults_violations:
  "request_violations three_faults =
     [''user[0].type must be one of: text, audio_url, image_url, video_url'',
      ''assistants must be an object mapping models to content arrays'',
      ''messages[2] must have at least one of: system, user, assistants'']"
  by code_simp

lemma three_faults_stated:
  "list_all no_falsy_field (elements (get ''messages'' three_faults))
   \<and> stated_request_violations three_faults =
     [''user[0].type must be one of: text, audio_url, image_url, video_url'',
      ''assistants must be an object mapping models to content arrays'',
      ''messages[2] must have at least one of: system, user, assistants'']"
  by code_simp

theorem first_violation_reported_witness:
  "validateRequestParameters three_faults
     = validation_failure ''user[0].type must be one of: text, audio_url, image_url, video_url''
   \<and> completions resolving three_faults
     = rejected (Typed (ValidationError
         ''user[0].type must be one of: text, audio_url, image_url, video_url''))
   \<and> combination resolving three_faults
     = rejected (Typed (ValidationError
         ''user[0].type must be one of: text, audio_url, image_url, video_url''))
   \<and> search resolving three_faults
     = rejected (Typed (ValidationError
         ''user[0].type must be one of: text, audio_url, image_url, video_url''))"
proof -
  have d: "destructurable three_faults"
    by (simp add: three_faults_def destructurable_def)
  show ?thesis
    using first_violation_reported[OF d, of _ _ resolving] three_faults_violations
      three_faults_stated
    by blast
qed

text \<open>
  Claim C6 as stated fails where a field is present with a falsy value: by the words of
  the specification the \<open>system\<close> field of 0 is the first violation, and validation
  reports the one under \<open>user\<close>, which comes later.
\<close>

theorem falsy_system_counterexample:
  "stated_request_violations falsy_system
     = [''system must be an array of content objects'',
        ''user[0].type must be one of: text, audio_url, image_url, video_url'']
   \<and> validateRequestParameters falsy_system
     = validation_failure ''user[0].type must be one of: text, audio_url, image_url, video_url''
   \<and> ''user[0].type must be one of: text, audio_url, image_url, video_url''
     \<noteq> ''system must be an array of content objects''"
  by code_simp


subsection \<open>Validators raise typed failures\<close>

lemma returned_outcome [simp]: "validation_outcome (Inr v)"
  by (simp add: validation_outcome_def)

lemma validation_failure_outcome [simp]: "validation_outcome (validation_failure msg)"
  by (simp add: validation_outcome_def validation_failure_def ValidationError_def)

lemma throw_if_outcome:
  "validation_outcome rest \<Longrightarrow> validation_outcome (throw_if c msg rest)"
  by (simp add: throw_if_def)

lemma validateModels_outcome [simp]: "validation_outcome (validateModels models)"
  by (simp add: validateModels_def)

lemma after_outcome:
  "validation_outcome first \<Longrightarrow> validation_outcome rest \<Longrightarrow>
     validation_outcome (case first of Inl e \<Rightarrow> Inl e | Inr u \<Rightarrow> rest)"
  by (cases first) (simp_all add: validation_outcome_def)

lemma validateModelsAndPrompt_outcome [simp]:
  "validation_outcome (validateModelsAndPrompt models prompt)"
  unfolding validateModelsAndPrompt_def
  by (intro after_outcome throw_if_outcome) simp_all

lemma check_pair_outcome:
  "string_or_absent v \<Longrightarrow> validation_outcome rest \<Longrightarrow>
     validation_outcome (check_pair name sep msg v rest)"
  by (cases v) (auto simp: check_pair_def string_or_absent_def throw_if_def)

lemma default_string_or_absent:
  "string_or_absent v \<Longrightarrow> string_or_absent (default_to (JStr s) v)"
  by (auto simp: default_to_def string_or_absent_def)

lemma first_failure_outcome: "validation_outcome (first_failure vs)"
  by (cases vs) simp_all

lemma video_generate_checks_outcome:
  assumes "string_or_absent (get ''aspect_ratio'' request)"
      and "string_or_absent (get ''dimension'' request)"
  shows "validation_outcome (video_generate_checks request)"
  unfolding video_generate_checks_def Let_def
  by (intro after_outcome throw_if_outcome check_pair_outcome default_string_or_absent assms)
     simp_all

lemma image_generate_checks_outcome: "validation_outcome (image_generate_checks request)"
  unfolding image_generate_checks_def Let_def
  by (intro after_outcome throw_if_outcome) simp_all

lemma image_edit_checks_outcome: "validation_outcome (image_edit_checks request)"
  unfolding image_edit_checks_def Let_def
  by (intro after_outcome throw_if_outcome) simp_all

lemma audio_generate_checks_outcome: "validation_outcome (audio_generate_checks request)"
  unfolding audio_generate_checks_def Let_def
  by (intro after_outcome throw_if_outcome) simp_all

lemma tts_checks_outcome: "validation_outcome (tts_checks request)"
  unfolding tts_checks_def Let_def
  by (intro after_outcome throw_if_outcome) simp_all

lemma stt_checks_outcome: "validation_outcome (stt_checks request)"
  unfolding stt_checks_def Let_def
  by (intro after_outcome throw_if_outcome) simp_all

text \<open>
  On a request object every validator returns normally or raises a typed validation
  failure, the one of video generation provided its \<open>aspect_ratio\<close> and \<open>dimension\<close>
  are absent or strings.
\<close>

lemma validators_raise_typed_failures:
  assumes "destructurable request"
  shows "validation_outcome (validateRequestParameters request)
       \<and> validation_outcome (image_generate_checks request)
       \<and> validation_outcome (image_edit_checks request)
       \<and> validation_outcome (audio_generate_checks request)
       \<and> validation_outcome (tts_checks request)
       \<and> validation_outcome (stt_checks request)
       \<and> (string_or_absent (get ''aspect_ratio'' request)
            \<and> string_or_absent (get ''dimension'' request)
           \<longrightarrow> validation_outcome (video_generate_checks request))"
  using assms
  by (auto simp: validation_is_first_failure first_failure_outcome
      image_generate_checks_outcome image_edit_checks_outcome audio_generate_checks_outcome
      tts_checks_outcome stt_checks_outcome video_generate_checks_outcome)

text \<open>
  Claim C8: whatever its input, video generation with a value of any type in
  \<open>aspect_ratio\<close> or \<open>dimension\<close> included, a validator returns normally or raises a
  typed validation failure. The validator of video generation tests the type of every
  other optional field, but calls \<open>split\<close> on these two untested: for a number in
  \<open>aspect_ratio\<close> the \<open>TypeError\<close> of the engine escapes, and nothing is sent.
\<close>

theorem numeric_aspect_ratio_escapes:
  "video_generate resolving numeric_ratio_request
     = (Inl (Untyped ''TypeError''
               ''aspect_ratio.split is not a function or its return value is not iterable''),
        [])
   \<and> \<not> validation_outcome (video_generate_checks numeric_ratio_request)"
  by (simp add: numeric_ratio_request_def video_generate_def video_generate_checks_def
      destructurable_def validateModelsAndPrompt_def validateModels_def throw_if_def
      default_to_def check_pair_def rejected_def trims_to_empty_def is_space_def
      validation_outcome_def)

subsection \<open>The status table\<close>

lemma classify_table:
  "classify st m d =
     \<lparr>kind = table_kind st, message = m, code = table_code st,
      status = Some (stored_status st), details = d\<rparr>"
  by (simp add: classify_def table_kind_def table_code_def stored_status_def
      InvalidRequestError_def AuthenticationError_def APIError_def RateLimitError_def
      ServiceUnavailableError_def)

lemma classification:
  assumes "message_string rt (errorMessage rt response) = Some m"
  shows "handleErrorResponse rt response =
     Typed \<lparr>kind = table_kind (http_status response), message = m,
            code = table_code (http_status response),
            status = Some (stored_status (http_status response)),
            details = JObj [(''message'', errorMessage rt response),
                            (''status'', JNum (Finite (of_nat (http_status response))))]\<rparr>"
  using assms by (simp add: handleErrorResponse_def classify_table Let_def)

text \<open>
  Claim C2: the thrown error has the kind and the code of the table, the derived
  message, the original status in its \<open>status\<close> field, and the details
  \<open>{message, status}\<close>. All of it holds (\<open>classification\<close>) but the \<open>status\<close> field:
  the classes of authentication and service errors store 401 and 503 whatever the
  response said. A 403 is thrown with \<open>status\<close> 401 and \<open>details.status\<close> 403.
\<close>

theorem forbidden_carries_status_401:
  "handleErrorResponse sample_runtime
       \<lparr>http_status = 403, body_text = Some ''{\"message\":\"bad field\"}''\<rparr>
     = Typed \<lparr>kind = Authentication, message = ''bad field'', code = ''PERMISSION_DENIED'',
              status = Some 401,
              details = JObj [(''message'', JStr ''bad field''),
                              (''status'', JNum (Finite 403))]\<rparr>"
  by (simp add: handleErrorResponse_def errorMessage_def looks_html_def sample_runtime_def
      parsing_def message_of_json_def message_or_error_def message_string_def classify_def
      AuthenticationError_def)

subsection \<open>The derived message\<close>

lemma message_of_plain_body:
  assumes "plain_body j"
  shows "message_of_json rt st j =
     (if html_in_raw j then Some (JStr unknown_format) else Some (message_or_error rt st j))"
proof (cases "raw_of j")
  case (JStr s)
  with assms show ?thesis
    by (cases "s = []")
       (auto simp: message_of_json_def plain_body_def html_in_raw_def raw_of_def looks_html_def)
qed (use assms in \<open>auto simp: message_of_json_def plain_body_def html_in_raw_def raw_of_def\<close>)

text \<open>
  Claim C4, as amended: the message is the fixed fallback when the body cannot be read,
  contains \<open><!DOCTYPE html>\<close> or \<open><html\<close>, or does not parse as JSON. When it parses
  to a value other than \<open>null\<close> whose \<open>details.raw\<close> is absent, falsy, a string or an
  array, the message is the fallback if that string contains one of the two markers or
  that array has one as an element; otherwise it is the truthy \<open>message\<close> field, else
  the truthy \<open>error\<close> field (stringified unless a string), else
  \<open>Request failed with status: N\<close>.
\<close>

theorem derived_message:
  "(body_text response = None \<longrightarrow> errorMessage rt response = JStr unknown_format)
 \<and> (body_text response = Some b \<and> looks_html b \<longrightarrow>
        errorMessage rt response = JStr unknown_format)
 \<and> (body_text response = Some b \<and> \<not> looks_html b \<and> JSON_parse rt b = None \<longrightarrow>
        errorMessage rt response = JStr unknown_format)
 \<and> (body_text response = Some b \<and> \<not> looks_html b \<and> JSON_parse rt b = Some j
      \<and> plain_body j \<longrightarrow>
        errorMessage rt response =
          (if html_in_raw j then JStr unknown_format
           else if truthy (get ''message'' j) then get ''message'' j
           else if truthy (get ''error'' j) then stringified rt (get ''error'' j)
           else JStr (''Request failed with status: '' @ string_of_nat (http_status response))))"
  by (auto simp: errorMessage_def message_of_plain_body message_or_error_def stringified_def)

theorem derived_message_witness:
  "errorMessage sample_runtime \<lparr>http_status = 502, body_text = None\<rparr> = JStr unknown_format
 \<and> errorMessage sample_runtime
      \<lparr>http_status = 502, body_text = Some ''<html><body>Bad Gateway</body></html>''\<rparr>
      = JStr unknown_format
 \<and> errorMessage sample_runtime
      \<lparr>http_status = 500, body_text = Some ''Internal Server Error''\<rparr>
      = JStr unknown_format
 \<and> errorMessage sample_runtime
      \<lparr>http_status = 400, body_text = Some ''{\"message\":\"bad field\"}''\<rparr>
      = JStr ''bad field''"
  using derived_message[of "\<lparr>http_status = 502, body_text = None\<rparr>" sample_runtime]
        derived_message[of "\<lparr>http_status = 502,
                               body_text = Some ''<html><body>Bad Gateway</body></html>''\<rparr>"
                           sample_runtime "''<html><body>Bad Gateway</body></html>''"]
        derived_message[of "\<lparr>http_status = 500, body_text = Some ''Internal Server Error''\<rparr>"
                           sample_runtime "''Internal Server Error''"]
        derived_message[of "\<lparr>http_status = 400,
                               body_text = Some ''{\"message\":\"bad field\"}''\<rparr>"
                           sample_runtime "''{\"message\":\"bad field\"}''"
                           "JObj [(''message'', JStr ''bad field'')]"]
  by (simp add: looks_html_def sample_runtime_def parsing_def plain_body_def raw_of_def
      html_in_raw_def)

text \<open>
  Claim C4 as stated fails for a body that parses and has neither field: the message is
  not the fallback but the one that names the status.
\<close>

theorem empty_object_counterexample:
  "\<not> looks_html ''{}''
 \<and> JSON_parse sample_runtime ''{}'' = Some (JObj [])
 \<and> \<not> has_key ''message'' (JObj []) \<and> \<not> has_key ''error'' (JObj [])
 \<and> errorMessage sample_runtime \<lparr>http_status = 400, body_text = Some ''{}''\<rparr>
     = JStr ''Request failed with status: 400''
 \<and> JStr ''Request failed with status: 400'' \<noteq> JStr unknown_format"
  by (simp add: errorMessage_def looks_html_def sample_runtime_def parsing_def
      message_of_json_def message_or_error_def string_of_nat.simps digit_char_def
      unknown_format_def)

subsection \<open>Exceptions of fetch\<close>

text \<open>
  What both request functions make of an untyped error thrown by \<open>fetch\<close>: a
  \<open>ConnectionError\<close> if it is a \<open>TypeError\<close> whose message contains \<open>fetch\<close>, an
  \<open>APIError\<close> with code \<open>UNEXPECTED_ERROR\<close> otherwise.
\<close>

lemma fetch_exception_classified:
  "(fetch endpoint body = FetchThrows (Untyped name msg) \<longrightarrow>
      makeRequest rt fetch endpoint body =
        Inl (Typed (if name = ''TypeError'' \<and> js_includes msg ''fetch''
          then \<lparr>kind = Connection,
                message = ''Could not connect to the API. Please check your internet connection.'',
                code = ''CONNECTION_ERROR'', status = None,
                details = JObj [(''originalError'', JStr msg)]\<rparr>
          else \<lparr>kind = API, message = ''An unexpected error occurred: '' @ msg,
                code = ''UNEXPECTED_ERROR'', status = None,
                details = JObj [(''originalError'', JStr msg)]\<rparr>)))
 \<and> (fetchForm formEndpoint formData = FetchThrows (Untyped name msg) \<longrightarrow>
      makeFormDataRequest rt fetchForm formEndpoint formData =
        Inl (Typed (if name = ''TypeError'' \<and> js_includes msg ''fetch''
          then \<lparr>kind = Connection,
                message = ''Could not connect to the API. Please check your internet connection.'',
                code = ''CONNECTION_ERROR'', status = None,
                details = JObj [(''originalError'', JStr msg)]\<rparr>
          else \<lparr>kind = API, message = ''An unexpected error occurred: '' @ msg,
                code = ''UNEXPECTED_ERROR'', status = None,
                details = JObj [(''originalError'', JStr msg)]\<rparr>)))"
  by (simp add: makeRequest_def makeFormDataRequest_def settle_def ConnectionError_def
      APIError_def)

text \<open>
  Claim C5: when the exchange does not complete because of a network exception, a
  refused connection for one, the error is a \<open>ConnectionError\<close> with code
  \<open>CONNECTION_ERROR\<close>. The branch that makes it is guarded by a test for a \<open>TypeError\<close>
  whose message contains \<open>fetch\<close>; the client calls node-fetch, which reports a refused
  connection with its own \<open>FetchError\<close>. The guard does not match it, and the error
  leaves as an \<open>APIError\<close> with code \<open>UNEXPECTED_ERROR\<close>.
\<close>

theorem connection_refused_is_unexpected_error:
  "makeRequest sample_runtime refused ''/chat/completions'' chat_request
     = Inl (Typed \<lparr>kind = API,
              message = ''An unexpected error occurred: request to https://api.alle-ai.com/api/v1/chat/completions failed, reason: connect ECONNREFUSED 127.0.0.1:443'',
              code = ''UNEXPECTED_ERROR'', status = None,
              details = JObj [(''originalError'', JStr ''request to https://api.alle-ai.com/api/v1/chat/completions failed, reason: connect ECONNREFUSED 127.0.0.1:443'')]\<rparr>)
   \<and> API \<noteq> Connection"
  by (simp add: makeRequest_def settle_def refused_def APIError_def)

subsection \<open>Typed errors of the transport in image edit and speech-to-text\<close>

lemma string_of_nat_0: "string_of_nat 0 = ''0''"
  by (simp add: string_of_nat.simps digit_char_def)

lemma unauthorized_settles:
  "makeFormDataRequest sample_runtime unauthorized endpoint formData
     = Inl (Typed (AuthenticationError ''Invalid API key'' ''AUTH_ERROR''
         (JObj [(''message'', JStr ''Invalid API key''), (''status'', JNum (Finite 401))])))"
  by (simp add: makeFormDataRequest_def settle_def unauthorized_def ok_def
      handleErrorResponse_def errorMessage_def looks_html_def sample_runtime_def parsing_def
      message_of_json_def message_or_error_def message_string_def classify_def)

text \<open>
  Claim C3: a typed error thrown inside the transport call is thrown on unchanged by the
  operation. In \<open>edit\<close> and \<open>stt\<close> the transport call stands inside the \<open>try\<close> block
  whose \<open>catch\<close> makes a new \<open>ValidationError\<close> of whatever was thrown: the
  \<open>AuthenticationError\<close> of a 401 leaves either as a \<open>ValidationError\<close> with a new
  message.
\<close>

theorem edit_rewraps_authentication_error:
  "image_edit reading (makeFormDataRequest sample_runtime unauthorized) edit_request
     = (Inl (Typed (ValidationError ''Failed to process image file: Invalid API key'')),
        [FormCall ''/image/edit''
           [(''models[0]'', FText ''dall-e-3''), (''image_file'', FFile ''bytes'' ''upload''),
            (''prompt'', FText ''Add a sunset'')]])
   \<and> stt reading (makeFormDataRequest sample_runtime unauthorized) stt_request
     = (Inl (Typed (ValidationError '' Invalid API key'')),
        [FormCall ''/audio/stt''
           [(''models[0]'', FText ''whisper''), (''audio_file'', FFile ''bytes'' ''upload'')]])
   \<and> makeFormDataRequest sample_runtime unauthorized ''/image/edit''
         [(''models[0]'', FText ''dall-e-3''), (''image_file'', FFile ''bytes'' ''upload''),
          (''prompt'', FText ''Add a sunset'')]
     = Inl (Typed (AuthenticationError ''Invalid API key'' ''AUTH_ERROR''
         (JObj [(''message'', JStr ''Invalid API key''), (''status'', JNum (Finite 401))])))"
  by (simp add: unauthorized_settles image_edit_def image_edit_checks_def stt_def stt_checks_def
      edit_request_def stt_request_def destructurable_def validateModelsAndPrompt_def
      validateModels_def throw_if_def default_to_def reading_def string_of_nat_0
      trims_to_empty_def is_space_def AuthenticationError_def)

lemma edit_wraps_whatever_is_thrown:
  assumes "destructurable request" "image_edit_checks request = Inr ()"
    and "readFile (case get ''image_file'' request of JStr s \<Rightarrow> s | v \<Rightarrow> []) ''image''
           = Inr (buffer, filename)"
    and "mkForm ''/image/edit''
           (model_fields 0 (elements (get ''models'' request))
              @ [(''image_file'', FFile buffer filename),
                 (''prompt'', text_of (get ''prompt'' request))]) = Inl e"
  shows "fst (image_edit readFile mkForm request)
           = Inl (Typed (ValidationError (''Failed to process image file: '' @ error_message e)))"
  using assms by (simp add: image_edit_def Let_def)

lemma stt_wraps_whatever_is_thrown:
  assumes "destructurable request" "stt_checks request = Inr ()"
    and "readFile (case get ''audio_file'' request of JStr s \<Rightarrow> s | v \<Rightarrow> []) ''audio''
           = Inr (buffer, filename)"
    and "has_own_keys (default_to (JObj []) (get ''model_specific_params'' request))
           = Some nonempty"
    and "mkForm ''/audio/stt''
           (model_fields 0 (elements (get ''models'' request))
              @ [(''audio_file'', FFile buffer filename)]
              @ (if nonempty
                 then [(''model_specific_params'',
                        FJson (default_to (JObj []) (get ''model_specific_params'' request)))]
                 else [])) = Inl e"
  shows "fst (stt readFile mkForm request)
           = Inl (Typed (ValidationError ('' '' @ error_message e)))"
  using assms by (simp add: stt_def Let_def)

subsection \<open>Validation is idempotent and leaves the request as it was\<close>

text \<open>
  The steps of the validators preserve the store: a read leaves it alone, and a \<open>throw\<close>
  adds the error object after the cells that were there.
\<close>

lemma preserves_return [intro!, simp]: "preserves (return_value x)"
  by (simp add: preserves_def return_value_def)

lemma preserves_read [intro!, simp]: "preserves (read f)"
  by (simp add: preserves_def read_def)

lemma throw_validation_allocates:
  "throw_validation msg s =
     (Inl (Typed (ValidationError msg)),
      s @ [ObjectCell [(''message'', RStr msg), (''code'', RStr ''VALIDATION_ERROR''),
                       (''status'', RUndefined), (''details'', RUndefined),
                       (''name'', RStr ''ValidationError'')]])"
  by (simp add: throw_validation_def new_ValidationError_def new_AlleAIError_def and_then_def
      allocate_def assign_def throw_def return_value_def)

lemma throw_type_error_allocates:
  "throw_type_error msg s =
     (Inl (Untyped ''TypeError'' msg), s @ [ObjectCell [(''message'', RStr msg)]])"
  by (simp add: throw_type_error_def and_then_def allocate_def throw_def)

lemma preserves_throw_validation [intro!, simp]: "preserves (throw_validation msg)"
  by (simp add: preserves_def throw_validation_allocates)

lemma preserves_throw_type_error [intro!, simp]: "preserves (throw_type_error msg)"
  by (simp add: preserves_def throw_type_error_allocates)

lemma preserves_destructure [intro!, simp]: "preserves (destructure request)"
  by (simp add: destructure_def)

lemma preserves_and_then [intro!]:
  assumes "preserves m" "\<And>x. preserves (k x)"
  shows "preserves (and_then m k)"
proof -
  have "prefix s (snd (and_then m k s))
        \<and> (\<forall>y. fst (and_then m k s) = Inr y \<longrightarrow> snd (and_then m k s) = s)" for s
  proof (cases "m s")
    case (Pair r s')
    show ?thesis
    proof (cases r)
      case (Inl e)
      with Pair assms(1) show ?thesis
        by (auto simp: and_then_def preserves_def dest: spec[of _ s])
    next
      case (Inr x)
      with Pair assms(1) have "s' = s"
        by (auto simp: preserves_def dest: spec[of _ s])
      with Pair Inr assms(2)[of x] show ?thesis
        by (auto simp: and_then_def preserves_def)
    qed
  qed
  then show ?thesis
    by (simp add: preserves_def)
qed

lemma preserves_if [intro!]:
  "preserves m \<Longrightarrow> preserves n \<Longrightarrow> preserves (if c then m else n)"
  by simp

lemma preserves_forEach_from [intro!]:
  assumes "\<And>x i. preserves (f x i)"
  shows "preserves (forEach_from_at i f xs)"
  by (induction xs arbitrary: i) (auto intro: assms)

lemma preserves_forEach [intro!]:
  assumes "\<And>x i. preserves (f x i)"
  shows "preserves (forEach_at f array)"
  unfolding forEach_at_def by (auto intro: assms)

lemma preserves_validateContentObject [intro!, simp]:
  "preserves (validateContentObject_at content path)"
  unfolding validateContentObject_at_def by auto

lemma preserves_validateRoleField [intro!, simp]: "preserves (validateRoleField_at key msg)"
  unfolding validateRoleField_at_def by auto

lemma preserves_validateAssistants [intro!, simp]: "preserves (validateAssistants_at msg)"
  unfolding validateAssistants_at_def by auto

lemma preserves_validateMessage [intro!, simp]: "preserves (validateMessage_at msg index)"
  unfolding validateMessage_at_def validateMessageContent_at_def by auto

lemma preserves_validateModels [intro!, simp]: "preserves (validateModels_at models)"
  unfolding validateModels_at_def by auto

lemma preserves_validateRequestParameters:
  "preserves (validateRequestParameters_at request)"
  unfolding validateRequestParameters_at_def by auto

text \<open>
  The validator over the store decides as the validator over values does on the value
  the request stands for.
\<close>

lemma truthy_value_at [simp]: "truthy (value_at d s r) = truthy_ref r"
  by (cases r; cases d) (auto split: option.splits cell.splits)

lemma typeof_value_at [simp]: "typeof (value_at d s r) = typeof_ref r"
  by (cases r; cases d) (auto split: option.splits cell.splits)

lemma isArray_value_at [simp]: "isArray (value_at (Suc d) s r) = isArray_at s r"
  by (cases r) (auto simp: isArray_at_def split: option.splits cell.splits)

lemma elements_value_at [simp]:
  "elements (value_at (Suc d) s r) = map (value_at d s) (elements_at s r)"
  by (cases r) (auto simp: elements_at_def split: option.splits cell.splits)

lemma has_key_value_at [simp]: "has_key k (value_at (Suc d) s r) = has_key_at s k r"
  by (cases r)
     (force simp: has_key_at_def properties_at_def image_iff split: option.splits cell.splits)+

lemma map_of_mapped:
  "map_of (map (\<lambda>kv. (fst kv, f (snd kv))) kvs) k = map_option f (map_of kvs k)"
  by (induction kvs) auto

lemma get_value_at [simp]: "get k (value_at (Suc d) s r) = value_at d s (get_at s k r)"
  by (cases r)
     (auto simp: get_at_def properties_at_def map_of_mapped split: option.splits cell.splits)

lemma value_at_JStr [simp]: "(value_at d s r = JStr t) = (r = RStr t)"
  by (cases r; cases d) (auto split: option.splits cell.splits)

lemma value_at_in_strings [simp]:
  "(value_at d s r \<in> JStr ` set ts) = (r \<in> RStr ` set ts)"
  by (auto simp: image_iff)

lemma read_then [simp]: "and_then (read f) k s = k (f s) s"
  by (simp add: and_then_def read_def)

lemma fst_and_then:
  assumes "preserves m"
  shows "fst (and_then m k s) = (case fst (m s) of Inl e \<Rightarrow> Inl e | Inr x \<Rightarrow> fst (k x s))"
proof (cases "m s")
  case (Pair r s')
  show ?thesis
  proof (cases r)
    case (Inl e)
    with Pair show ?thesis
      by (simp add: and_then_def)
  next
    case (Inr x)
    with Pair assms have "s' = s"
      by (auto simp: preserves_def dest: spec[of _ s])
    with Pair Inr show ?thesis
      by (simp add: and_then_def)
  qed
qed

lemma fst_throw_validation [simp]: "fst (throw_validation msg s) = validation_failure msg"
  by (simp add: throw_validation_allocates validation_failure_def)

lemma fst_destructure:
  "fst (destructure request s)
     = (if request = RUndefined \<or> request = RNull
        then Inl (destructure_failure (value_at d s request)) else Inr ())"
  by (auto simp: destructure_def throw_type_error_allocates destructure_failure_def
      return_value_def)

lemma fst_return [simp]: "fst (return_value x s) = Inr x"
  by (simp add: return_value_def)

lemma content_agrees:
  "fst (validateContentObject_at content path s)
     = validateContentObject (value_at (Suc d) s content) path"
  by (simp add: validateContentObject_at_def validateContentObject_def)

lemma forEach_from_agrees:
  assumes "\<And>x i. preserves (g x i)" "\<And>x i. fst (g x i s) = f (value_at d s x) i"
  shows "fst (forEach_from_at i g xs s) = forEach_from i f (map (value_at d s) xs)"
  by (induction xs arbitrary: i) (simp_all add: fst_and_then assms cong: sum.case_cong)

lemma forEach_agrees:
  assumes "\<And>x i. preserves (g x i)" "\<And>x i. fst (g x i s) = f (value_at d s x) i"
  shows "fst (forEach_at g array s) = forEach f (elements (value_at (Suc d) s array))"
  using forEach_from_agrees[of g s f d 0, OF assms]
  by (simp add: forEach_at_def forEach_def)

lemma object_values_value_at [simp]:
  "typeof_ref r = ''object'' \<Longrightarrow> \<not> isArray_at s r \<Longrightarrow>
     object_values (value_at (Suc d) s r) = map (value_at d s) (map snd (properties_at s r))"
  by (cases r)
     (auto simp: isArray_at_def properties_at_def split: option.splits cell.splits)

lemma contents_agree:
  "fst (forEach_from_at i (\<lambda>content j. validateContentObject_at content (p j)) xs s)
     = forEach_from i (\<lambda>content j. validateContentObject content (p j))
         (map (value_at (Suc d) s) xs)"
  by (rule forEach_from_agrees, rule preserves_validateContentObject, rule content_agrees)

lemma role_agrees:
  "fst (validateRoleField_at key msg s)
     = validateRoleField key (value_at (Suc (Suc (Suc d))) s msg)"
  by (simp add: validateRoleField_at_def validateRoleField_def forEach_at_def forEach_def
      contents_agree[where d = d])

lemma preserves_assistants_value:
  "preserves (and_then (read (\<lambda>s. isArray_at s contents))
     (\<lambda>array.
        if \<not> array then throw_validation (q i)
        else forEach_at (\<lambda>content j. validateContentObject_at content (p j)) contents))"
  by auto

lemma assistants_value_agrees:
  "fst (and_then (read (\<lambda>s. isArray_at s contents))
     (\<lambda>array.
        if \<not> array then throw_validation (q i)
        else forEach_at (\<lambda>content j. validateContentObject_at content (p j)) contents) s)
   = (if \<not> isArray (value_at (Suc (Suc d)) s contents) then validation_failure (q i)
      else forEach (\<lambda>content j. validateContentObject content (p j))
             (elements (value_at (Suc (Suc d)) s contents)))"
  by (simp add: forEach_at_def forEach_def contents_agree[where d = d])

lemma assistants_values_agree:
  "fst (forEach_from_at k
     (\<lambda>contents i.
        and_then (read (\<lambda>s. isArray_at s contents))
          (\<lambda>array.
             if \<not> array then throw_validation (q i)
             else forEach_at (\<lambda>content j. validateContentObject_at content (p j)) contents))
     xs s)
   = forEach_from k
       (\<lambda>contents i.
          if \<not> isArray contents then validation_failure (q i)
          else forEach (\<lambda>content j. validateContentObject content (p j)) (elements contents))
       (map (value_at (Suc (Suc d)) s) xs)"
  by (rule forEach_from_agrees, rule preserves_assistants_value, rule assistants_value_agrees)

lemma assistants_agrees:
  "fst (validateAssistants_at msg s)
     = validateAssistants (value_at (Suc (Suc (Suc (Suc d)))) s msg)"
  by (simp add: validateAssistants_at_def validateAssistants_def forEach_def
      assistants_values_agree[where d = d] del: map_map)

lemma message_agrees:
  "fst (validateMessage_at msg index s)
     = validateMessage (value_at (Suc (Suc (Suc (Suc d)))) s msg) index"
  by (simp add: validateMessage_at_def validateMessage_def validateMessageContent_at_def
      validateMessageContent_def fst_and_then role_agrees[of _ _ _ "Suc d"]
      assistants_agrees[of _ _ d] cong: sum.case_cong)

lemma messages_agree:
  "fst (forEach_from_at i validateMessage_at xs s)
     = forEach_from i validateMessage (map (value_at (Suc (Suc (Suc (Suc d)))) s) xs)"
  by (rule forEach_from_agrees, rule preserves_validateMessage, rule message_agrees)

lemma models_agrees:
  "fst (validateModels_at models s) = validateModels (value_at (Suc d) s models)"
  by (simp add: validateModels_at_def validateModels_def list_all_iff)

lemma value_at_JUndefined [simp]: "(value_at d s r = JUndefined) = (r = RUndefined)"
  by (cases r; cases d) (auto split: option.splits cell.splits)

lemma value_at_JNull [simp]: "(value_at d s r = JNull) = (r = RNull)"
  by (cases r; cases d) (auto split: option.splits cell.splits)

lemma store_validator_agrees:
  "fst (validateRequestParameters_at request s)
     = validateRequestParameters (value_at (6 + d) s request)"
proof -
  have six: "6 + d = Suc (Suc (Suc (Suc (Suc (Suc d)))))"
    by simp
  show ?thesis
    unfolding six
    by (simp add: validateRequestParameters_at_def validateRequestParameters_def
          destructurable_def fst_and_then fst_destructure[where d = "Suc (Suc (Suc (Suc (Suc (Suc d)))))"]
          models_agrees[of _ _ "Suc (Suc (Suc (Suc d)))"] forEach_at_def forEach_def
          messages_agree[where d = d] cong: sum.case_cong)
qed

text \<open>The same for the image, audio and video modules.\<close>

lemma preserves_throw_if [intro!, simp]: "preserves (throw_if_at c msg)"
  by (simp add: throw_if_at_def)

lemma preserves_validateModelsAndPrompt [intro!, simp]:
  "preserves (validateModelsAndPrompt_at models prompt)"
  unfolding validateModelsAndPrompt_at_def by auto

lemma preserves_check_pair [intro!, simp]: "preserves (check_pair_at name sep msg v)"
  by (cases v) (simp_all add: check_pair_at_def)

lemma surface_JUndefined [simp]: "(surface r = JUndefined) = (r = RUndefined)"
  by (cases r) simp_all

lemma surface_JNull [simp]: "(surface r = JNull) = (r = RNull)"
  by (cases r) simp_all

lemma typeof_surface [simp]: "typeof (surface r) = typeof_ref r"
  by (cases r) simp_all

lemma truthy_surface [simp]: "truthy (surface r) = truthy_ref r"
  by (cases r) simp_all

lemma blank_string_value_at [simp]: "blank_string (value_at d s r) = blank_string (surface r)"
  by (cases r; cases d) (auto split: option.splits cell.splits)

lemma isInteger_value_at [simp]: "isInteger (value_at d s r) = isInteger (surface r)"
  by (cases r; cases d) (auto split: option.splits cell.splits)

lemma not_integer_at_least_value_at [simp]:
  "not_integer_at_least k (value_at d s r) = not_integer_at_least k (surface r)"
  by (cases r; cases d) (auto split: option.splits cell.splits)

lemma not_positive_number_value_at [simp]:
  "not_positive_number (value_at d s r) = not_positive_number (surface r)"
  by (cases r; cases d) (auto split: option.splits cell.splits)

lemma fst_throw_if [simp]: "fst (throw_if_at c msg s) = throw_if c msg (Inr ())"
  by (simp add: throw_if_at_def throw_if_def)

text \<open>Appending an empty object changes nothing that can be read.\<close>

lemma value_at_default_object [simp]:
  "value_at d (s @ [ObjectCell []]) r = value_at d s r"
proof (induction d arbitrary: r)
  case 0
  show ?case by (cases r) simp_all
next
  case (Suc d)
  show ?case
    by (cases r) (auto simp: Suc nth_append split: option.splits cell.splits)
qed

lemma and_then_default_object:
  "and_then (default_object v) k s
     = (if v = RUndefined then k (RObject (length s)) (s @ [ObjectCell []]) else k v s)"
  by (simp add: default_object_def and_then_def allocate_def return_value_def)

lemma modelsAndPrompt_agrees:
  "fst (validateModelsAndPrompt_at models prompt s)
     = validateModelsAndPrompt (value_at (Suc d) s models) (value_at (Suc d) s prompt)"
  by (simp add: validateModelsAndPrompt_at_def validateModelsAndPrompt_def fst_and_then
      models_agrees[where d = d] cong: sum.case_cong)

lemma verdict_simps [simp]:
  "verdict (Inl e) = Inl e" "verdict (Inr b) = Inr ()"
  "verdict (validation_failure msg) = validation_failure msg"
  "verdict (throw_if c msg rest) = throw_if c msg (verdict rest)"
  "verdict (case r of Inl e \<Rightarrow> Inl e | Inr u \<Rightarrow> f u)
     = (case r of Inl e \<Rightarrow> Inl e | Inr u \<Rightarrow> verdict (f u))"
  by (simp_all add: verdict_def validation_failure_def throw_if_def split: sum.splits)

lemma throw_if_then [simp]:
  "fst (and_then (throw_if_at c msg) k s) = throw_if c msg (fst (k () s))"
  by (simp add: fst_and_then throw_if_def validation_failure_def)

lemma default_value_at [simp]:
  "default_to (JNum n) (value_at d s x) = value_at d s (default_ref (RNum n) x)"
  "default_to JNull (value_at d s x) = value_at d s (default_ref RNull x)"
  "default_to (JStr t) (value_at d s x) = value_at d s (default_ref (RStr t) x)"
  "default_to (JBool b) (value_at d s x) = value_at d s (default_ref (RBool b) x)"
  by (simp_all add: default_to_def default_ref_def)

lemma default_object_value_at [simp]:
  "default_to (JObj []) (value_at d s x) = (if x = RUndefined then JObj [] else value_at d s x)"
  by (simp add: default_to_def)

lemma image_generate_agrees:
  "fst (image_generate_validation_at request s)
     = (if \<not> destructurable (value_at (Suc (Suc d)) s request)
        then Inl (destructure_failure (value_at (Suc (Suc d)) s request))
        else verdict (image_generate_checks (value_at (Suc (Suc d)) s request)))"
  by (simp add: image_generate_validation_at_def image_generate_checks_def destructurable_def
      fst_and_then fst_destructure[where d = "Suc (Suc d)"] and_then_default_object
      modelsAndPrompt_agrees[where d = d] Let_def
      cong: sum.case_cong)


lemma image_edit_agrees:
  "fst (image_edit_validation_at request s)
     = (if \<not> destructurable (value_at (Suc (Suc d)) s request)
        then Inl (destructure_failure (value_at (Suc (Suc d)) s request))
        else image_edit_checks (value_at (Suc (Suc d)) s request))"
  by (simp add: image_edit_validation_at_def image_edit_checks_def destructurable_def
      fst_and_then fst_destructure[where d = "Suc (Suc d)"]
      modelsAndPrompt_agrees[where d = d])
     (simp cong: sum.case_cong)

lemma audio_generate_agrees:
  "fst (audio_generate_validation_at request s)
     = (if \<not> destructurable (value_at (Suc (Suc d)) s request)
        then Inl (destructure_failure (value_at (Suc (Suc d)) s request))
        else verdict (audio_generate_checks (value_at (Suc (Suc d)) s request)))"
  by (simp add: audio_generate_validation_at_def audio_generate_checks_def destructurable_def
      fst_and_then fst_destructure[where d = "Suc (Suc d)"] and_then_default_object
      modelsAndPrompt_agrees[where d = d] Let_def cong: sum.case_cong)

lemma elements_at_default_object [simp]:
  "elements_at (s @ [ObjectCell []]) r = elements_at s r"
  by (cases r) (auto simp: elements_at_def nth_append)

lemma tts_agrees:
  "fst (tts_validation_at request s)
     = (if \<not> destructurable (value_at (Suc (Suc d)) s request)
        then Inl (destructure_failure (value_at (Suc (Suc d)) s request))
        else verdict (tts_checks (value_at (Suc (Suc d)) s request)))"
  by (simp add: tts_validation_at_def tts_checks_def destructurable_def
      fst_and_then fst_destructure[where d = "Suc (Suc d)"] and_then_default_object
      models_agrees[where d = d] Let_def cong: sum.case_cong)

lemma stt_agrees:
  "fst (stt_validation_at request s)
     = (if \<not> destructurable (value_at (Suc (Suc d)) s request)
        then Inl (destructure_failure (value_at (Suc (Suc d)) s request))
        else stt_checks (value_at (Suc (Suc d)) s request))"
  by (simp add: stt_validation_at_def stt_checks_def destructurable_def
      fst_and_then fst_destructure[where d = "Suc (Suc d)"] and_then_default_object
      models_agrees[where d = d] Let_def)
     (simp add: fst_and_then cong: sum.case_cong)

lemma throw_type_error_then [simp]:
  "fst (and_then (throw_type_error msg) k s) = Inl (Untyped ''TypeError'' msg)"
  by (simp add: fst_and_then throw_type_error_allocates)

lemma return_then [simp]: "and_then (return_value x) k s = k x s"
  by (simp add: and_then_def return_value_def)

lemma check_pair_then:
  "fst (and_then (check_pair_at name sep msg v) k s)
     = check_pair name sep msg (value_at d s v) (fst (k () s))"
proof (cases v)
  case (RObject a)
  then show ?thesis
    by (cases d) (auto simp: check_pair_at_def check_pair_def split: option.splits cell.splits)
qed (simp_all add: check_pair_at_def check_pair_def)

lemma verdict_check_pair [simp]:
  "verdict (check_pair name sep msg v rest) = check_pair name sep msg v (verdict rest)"
  by (cases v) (simp_all add: check_pair_def)

lemma video_generate_agrees:
  "fst (video_generate_validation_at request s)
     = (if \<not> destructurable (value_at (Suc (Suc d)) s request)
        then Inl (destructure_failure (value_at (Suc (Suc d)) s request))
        else verdict (video_generate_checks (value_at (Suc (Suc d)) s request)))"
  by (simp add: video_generate_validation_at_def video_generate_checks_def destructurable_def
      fst_and_then fst_destructure[where d = "Suc (Suc d)"] and_then_default_object
      modelsAndPrompt_agrees[where d = d] check_pair_then[where d = "Suc d"] Let_def
      cong: sum.case_cong)

text \<open>A valid request passes every check of its kind.\<close>

lemma model_list_accepted: "model_list v \<Longrightarrow> validateModels v = Inr ()"
proof (cases v)
  case (JArr ms)
  assume "model_list v"
  with JArr have ms: "ms \<noteq> []" "list_all text_value ms"
    by simp_all
  have "typeof m = ''string''" if "text_value m" for m
    using that by (cases m) simp_all
  with ms(2) have "list_all (\<lambda>model. typeof model = ''string'') ms"
    by (simp add: list_all_iff)
  with ms(1) JArr show ?thesis
    by (simp add: validateModels_def)
qed simp_all

lemma single_model_list: "single_model v \<Longrightarrow> model_list v \<and> \<not> 1 < length (elements v)"
  by (cases v) auto

lemma filled_text_not_blank: "filled_text v \<Longrightarrow> \<not> blank_string v"
  by (cases v) (auto simp: trims_to_empty_def)

lemma models_and_prompt_accepted:
  "model_list models \<Longrightarrow> filled_text prompt \<Longrightarrow> validateModelsAndPrompt models prompt = Inr ()"
  by (simp add: validateModelsAndPrompt_def model_list_accepted filled_text_not_blank
      throw_if_def)

lemma whole_number_from_accepted:
  "absent_or (whole_number_from k) v \<Longrightarrow> \<not> (v \<noteq> JUndefined \<and> not_integer_at_least k v)"
proof (cases v)
  case (JNum n)
  assume "absent_or (whole_number_from k) v"
  with JNum show ?thesis
    by (cases n) (auto simp: absent_or_def)
qed (auto simp: absent_or_def)

lemma whole_number_accepted: "whole_number v \<Longrightarrow> isInteger v"
proof (cases v)
  case (JNum n)
  assume "whole_number v"
  with JNum show ?thesis
    by (cases n) auto
qed auto

lemma positive_number_accepted:
  "absent_or positive_number v \<Longrightarrow> \<not> (v \<noteq> JUndefined \<and> not_positive_number v)"
proof (cases v)
  case (JNum n)
  assume "absent_or positive_number v"
  with JNum show ?thesis
    by (cases n) (auto simp: absent_or_def)
qed (auto simp: absent_or_def)

lemma text_value_typeof: "text_value v \<Longrightarrow> typeof v = ''string''"
  by (cases v) simp_all

lemma boolean_value_typeof: "boolean_value v \<Longrightarrow> typeof v = ''boolean''"
  by (cases v) simp_all

lemma plain_object_typeof: "plain_object v \<Longrightarrow> typeof v = ''object'' \<and> v \<noteq> JNull"
  by (cases v) simp_all

lemma params_accepted:
  "absent_or plain_object v \<Longrightarrow>
     \<not> (default_to (JObj []) v \<noteq> JUndefined \<and> typeof (default_to (JObj []) v) \<noteq> ''object'')
   \<and> \<not> (default_to (JObj []) v \<noteq> JUndefined
          \<and> (typeof (default_to (JObj []) v) \<noteq> ''object'' \<or> default_to (JObj []) v = JNull))"
  by (auto simp: absent_or_def default_to_def dest: plain_object_typeof)

lemma is_digit_not_space: "is_digit c \<Longrightarrow> \<not> is_space c"
  by (auto simp: is_digit_def is_space_def)

lemma dropWhile_id: "xs = [] \<or> \<not> P (hd xs) \<Longrightarrow> dropWhile P xs = xs"
  by (cases xs) auto

lemma decimal_numeral_parts:
  assumes "decimal_numeral t"
  obtains whole where "t = whole" "whole \<noteq> []" "list_all is_digit whole"
  | whole fraction where "t = whole @ CHR ''.'' # fraction" "whole \<noteq> []"
      "list_all is_digit whole" "fraction \<noteq> []" "list_all is_digit fraction"
proof (cases "dropWhile is_digit t")
  case Nil
  then have "takeWhile is_digit t = t"
    by (metis append_Nil2 takeWhile_dropWhile_id)
  then have "list_all is_digit t"
    by (metis list_all_iff set_takeWhileD)
  moreover from assms have "t \<noteq> []"
    by (auto simp: decimal_numeral_def)
  ultimately show ?thesis
    using that(1) by blast
next
  case (Cons c fraction)
  with assms have c: "c = CHR ''.''" and f: "digits_only fraction"
    and w: "takeWhile is_digit t \<noteq> []"
    by (auto simp: decimal_numeral_def)
  have "t = takeWhile is_digit t @ CHR ''.'' # fraction"
    using Cons c by (metis takeWhile_dropWhile_id)
  moreover have "list_all is_digit (takeWhile is_digit t)"
    by (metis list_all_iff set_takeWhileD)
  ultimately show ?thesis
    using that(2) w f by (auto simp: digits_only_def)
qed

lemma takeWhile_all: "list_all P xs \<Longrightarrow> takeWhile P xs = xs"
  by (induction xs) auto

lemma dropWhile_all: "list_all P xs \<Longrightarrow> dropWhile P xs = []"
  by (induction xs) auto

lemma dot_not_digit: "\<not> is_digit (CHR ''.'')"
  by (simp add: is_digit_def)

lemma digits_trim:
  assumes "t \<noteq> []" "\<not> is_space (hd t)" "\<not> is_space (last t)"
  shows "js_trim t = t"
proof -
  have "dropWhile is_space t = t"
    using assms by (simp add: dropWhile_id)
  moreover have "dropWhile is_space (rev t) = rev t"
    using assms by (simp add: dropWhile_id hd_rev)
  ultimately show ?thesis
    by (simp add: js_trim_def)
qed

lemma decimal_numeral_accepted:
  assumes "decimal_numeral t"
  shows "t \<noteq> [] \<and> \<not> isNaN_Number t"
  using assms
proof (cases rule: decimal_numeral_parts)
  case (1 whole)
  then obtain c r where cr: "t = c # r"
    by (cases t) auto
  with 1 have digit: "is_digit c" "is_digit (last t)"
    by (auto simp: list_all_iff)
  have trim: "js_trim t = t"
    using 1 cr digit by (intro digits_trim) (auto dest: is_digit_not_space)
  have sign: "c \<noteq> CHR ''+''" "c \<noteq> CHR ''-''"
    using digit(1) by (auto simp: is_digit_def)
  have "unsigned_decimal t"
    using 1 by (simp add: unsigned_decimal_def takeWhile_all dropWhile_all)
  then have "signed_decimal t"
    using cr sign by (simp add: signed_decimal_def)
  with trim 1 show ?thesis
    by (simp add: isNaN_Number_def)
next
  case (2 whole fraction)
  then obtain c r where cr: "t = c # r" "c = hd whole"
    by (cases whole) auto
  with 2 have digit: "is_digit c" "is_digit (last t)"
    by (auto simp: list_all_iff)
  have trim: "js_trim t = t"
    using 2 cr digit by (intro digits_trim) (auto dest: is_digit_not_space)
  have sign: "c \<noteq> CHR ''+''" "c \<noteq> CHR ''-''"
    using digit(1) by (auto simp: is_digit_def)
  have tw: "takeWhile is_digit t = whole"
    using 2 by (simp add: takeWhile_append2 list_all_iff dot_not_digit)
  have dw: "dropWhile is_digit t = CHR ''.'' # fraction"
    using 2 by (simp add: dropWhile_append2 list_all_iff dot_not_digit)
  have "unsigned_decimal t"
    using 2 tw dw
    by (simp add: unsigned_decimal_def dropWhile_all exponent_part_opt_def Let_def)
  then have "signed_decimal t"
    using cr sign by (simp add: signed_decimal_def)
  with trim 2 show ?thesis
    by (simp add: isNaN_Number_def)
qed

lemma number_pair_accepted:
  assumes "absent_or (number_pair sep) v"
  shows "check_pair name sep msg v rest = rest"
proof (cases v)
  case (JStr t)
  with assms have pair: "number_pair sep (JStr t)"
    by (simp add: absent_or_def)
  then obtain w h where parts: "js_split sep t = [w, h]" "decimal_numeral w" "decimal_numeral h"
    by (auto split: list.splits)
  then have "\<not> malformed_pair (js_split sep t)"
    using decimal_numeral_accepted[of w] decimal_numeral_accepted[of h]
    by (simp add: malformed_pair_def)
  with JStr show ?thesis
    by (simp add: check_pair_def throw_if_def)
qed (use assms in \<open>auto simp: absent_or_def check_pair_def\<close>)

lemma forEach_from_accepted:
  "list_all (\<lambda>x. \<forall>i. f x i = Inr ()) xs \<Longrightarrow> forEach_from i f xs = Inr ()"
  by (induction xs arbitrary: i) simp_all

lemma content_item_accepted: "content_item c \<Longrightarrow> validateContentObject c path = Inr ()"
proof (cases c)
  case (JObj kvs)
  assume "content_item c"
  with JObj have type: "get ''type'' (JObj kvs) \<in> set (map JStr validTypes)"
    by (simp add: content_item_def)
  then have "map_of kvs ''type'' \<noteq> None"
    by (auto split: option.splits)
  then have "has_key ''type'' (JObj kvs)"
    by (simp add: map_of_eq_None_iff)
  with JObj type show ?thesis
    by (simp add: validateContentObject_def)
qed (simp_all add: content_item_def)

lemma content_list_accepted:
  assumes "content_list v"
  shows "isArray v \<and> truthy v
         \<and> forEach (\<lambda>content i. validateContentObject content (p i)) (elements v) = Inr ()"
proof (cases v)
  case (JArr cs)
  with assms have "list_all content_item cs"
    by simp
  then have "list_all (\<lambda>x. \<forall>i. validateContentObject x (p i) = Inr ()) cs"
    by (simp add: list_all_iff content_item_accepted)
  with JArr show ?thesis
    by (simp add: forEach_def forEach_from_accepted)
qed (use assms in simp_all)

lemma role_accepted:
  "\<not> has_key key m \<or> content_list (get key m) \<Longrightarrow> validateRoleField key m = Inr ()"
  using content_list_accepted[of "get key m"]
  by (auto simp: validateRoleField_def)

lemma assistants_accepted:
  assumes "\<not> has_key ''assistants'' m \<or> assistants_mapping (get ''assistants'' m)"
  shows "validateAssistants m = Inr ()"
proof (cases "has_key ''assistants'' m")
  case True
  with assms have mapping: "assistants_mapping (get ''assistants'' m)"
    by simp
  then obtain kvs where kvs: "get ''assistants'' m = JObj kvs"
    by (cases "get ''assistants'' m") simp_all
  with mapping have "list_all (\<lambda>kv. content_list (snd kv)) kvs"
    by simp
  then have "list_all (\<lambda>contents. \<forall>i.
     (if \<not> isArray contents
      then validation_failure
             (''assistants value at index '' @ string_of_nat i @ '' must be an array'')
      else forEach (\<lambda>content j.
             validateContentObject content (''assistants value['' @ string_of_nat j @ '']''))
             (elements contents)) = Inr ()) (map snd kvs)"
    using content_list_accepted by (simp add: list_all_iff)
  then show ?thesis
    using kvs by (simp add: validateAssistants_def forEach_def forEach_from_accepted)
qed (simp add: validateAssistants_def)

lemma message_entry_accepted: "message_entry m \<Longrightarrow> validateMessage m i = Inr ()"
proof -
  assume entry: "message_entry m"
  then obtain kvs where "m = JObj kvs"
    by (cases m) (simp_all add: message_entry_def)
  with entry show ?thesis
    by (simp add: validateMessage_def validateMessageContent_def message_entry_def
        role_accepted assistants_accepted)
qed

lemma plain_object_destructurable: "plain_object r \<Longrightarrow> destructurable r"
  by (cases r) (simp_all add: destructurable_def)

lemma message_list_accepted:
  assumes "message_list v"
  shows "truthy v \<and> isArray v \<and> length (elements v) \<noteq> 0
         \<and> forEach validateMessage (elements v) = Inr ()"
proof (cases v)
  case (JArr ms)
  with assms have "list_all (\<lambda>x. \<forall>i. validateMessage x i = Inr ()) ms" "ms \<noteq> []"
    by (simp_all add: list_all_iff message_entry_accepted)
  with JArr show ?thesis
    by (simp add: forEach_def forEach_from_accepted)
qed (use assms in simp_all)

lemma chat_accepted:
  "valid_request ChatCompletion r \<Longrightarrow> validateRequestParameters r = Inr ()"
  using message_list_accepted[of "get ''messages'' r"]
  by (simp add: valid_request_def validateRequestParameters_def plain_object_destructurable
      model_list_accepted Let_def)

lemma seed_accepted:
  "absent_or (null_or whole_number) v \<Longrightarrow>
     \<not> (default_to JNull v \<noteq> JNull \<and> default_to JNull v \<noteq> JUndefined
        \<and> \<not> isInteger (default_to JNull v))"
  by (auto simp: absent_or_def null_or_def default_to_def whole_number_accepted)

lemma style_accepted:
  "absent_or (null_or text_value) v \<Longrightarrow>
     \<not> (default_to JNull v \<noteq> JNull \<and> default_to JNull v \<noteq> JUndefined
        \<and> typeof (default_to JNull v) \<noteq> ''string'')"
  by (auto simp: absent_or_def null_or_def default_to_def text_value_typeof)

lemma size_accepted:
  "0 < k \<Longrightarrow> k \<le> d \<Longrightarrow> of_int \<lfloor>d\<rfloor> = d \<Longrightarrow> absent_or (whole_number_from k) v \<Longrightarrow>
     \<not> (default_to (JNum (Finite d)) v \<noteq> JUndefined
        \<and> not_integer_at_least k (default_to (JNum (Finite d)) v))"
  using whole_number_from_accepted[of k v]
  by (auto simp: default_to_def)

lemma throw_if_skip: "\<not> c \<Longrightarrow> throw_if c msg rest = rest"
  by (simp add: throw_if_def)

lemma image_generate_accepted:
  assumes "valid_request ImageGenerate r"
  shows "verdict (image_generate_checks r) = Inr ()"
proof -
  from assms have head:
    "validateModelsAndPrompt (get ''models'' r) (get ''prompt'' r) = Inr ()"
    by (simp add: valid_request_def models_and_prompt_accepted)
  have width: "\<not> (default_to (JNum (Finite 1024)) (get ''width'' r) \<noteq> JUndefined
        \<and> not_integer_at_least 64 (default_to (JNum (Finite 1024)) (get ''width'' r)))"
    using assms by (intro size_accepted) (simp_all add: valid_request_def)
  have height: "\<not> (default_to (JNum (Finite 1024)) (get ''height'' r) \<noteq> JUndefined
        \<and> not_integer_at_least 64 (default_to (JNum (Finite 1024)) (get ''height'' r)))"
    using assms by (intro size_accepted) (simp_all add: valid_request_def)
  have n: "\<not> (default_to (JNum (Finite 1)) (get ''n'' r) \<noteq> JUndefined
        \<and> not_integer_at_least 1 (default_to (JNum (Finite 1)) (get ''n'' r)))"
    using assms by (intro size_accepted) (simp_all add: valid_request_def)
  have seed: "\<not> (default_to JNull (get ''seed'' r) \<noteq> JNull
        \<and> default_to JNull (get ''seed'' r) \<noteq> JUndefined
        \<and> \<not> isInteger (default_to JNull (get ''seed'' r)))"
    using assms by (intro seed_accepted) (simp add: valid_request_def)
  have style: "\<not> (default_to JNull (get ''style_preset'' r) \<noteq> JNull
        \<and> default_to JNull (get ''style_preset'' r) \<noteq> JUndefined
        \<and> typeof (default_to JNull (get ''style_preset'' r)) \<noteq> ''string'')"
    using assms by (intro style_accepted) (simp add: valid_request_def)
  have params: "\<not> (default_to (JObj []) (get ''model_specific_params'' r) \<noteq> JUndefined
          \<and> (typeof (default_to (JObj []) (get ''model_specific_params'' r)) \<noteq> ''object''
              \<or> default_to (JObj []) (get ''model_specific_params'' r) = JNull))"
    using assms params_accepted[of "get ''model_specific_params'' r"]
    by (simp add: valid_request_def)
  show ?thesis
    unfolding image_generate_checks_def Let_def head sum.case
      throw_if_skip[OF width] throw_if_skip[OF height] throw_if_skip[OF n]
      throw_if_skip[OF seed] throw_if_skip[OF style] throw_if_skip[OF params]
    by simp
qed

lemma image_edit_accepted:
  "valid_request ImageEdit r \<Longrightarrow> image_edit_checks r = Inr ()"
  by (simp add: image_edit_checks_def valid_request_def models_and_prompt_accepted
      filled_text_not_blank throw_if_def)

lemma object_params_accepted:
  "absent_or plain_object v \<Longrightarrow>
     \<not> (default_to (JObj []) v \<noteq> JUndefined \<and> typeof (default_to (JObj []) v) \<noteq> ''object'')"
  using params_accepted[of v] by simp

lemma audio_generate_accepted:
  assumes "valid_request AudioGenerate r"
  shows "verdict (audio_generate_checks r) = Inr ()"
proof -
  from assms have head:
    "validateModelsAndPrompt (get ''models'' r) (get ''prompt'' r) = Inr ()"
    by (simp add: valid_request_def models_and_prompt_accepted)
  have params: "\<not> (default_to (JObj []) (get ''model_specific_params'' r) \<noteq> JUndefined
          \<and> typeof (default_to (JObj []) (get ''model_specific_params'' r)) \<noteq> ''object'')"
    using assms by (intro object_params_accepted) (simp add: valid_request_def)
  show ?thesis
    unfolding audio_generate_checks_def Let_def head sum.case throw_if_skip[OF params]
    by simp
qed

lemma voice_accepted:
  "absent_or text_value v \<Longrightarrow>
     \<not> (truthy (default_to (JStr ''nova'') v) \<and> typeof (default_to (JStr ''nova'') v) \<noteq> ''string'')"
  by (auto simp: absent_or_def default_to_def text_value_typeof)

lemma tts_accepted:
  assumes "valid_request TextToSpeech r"
  shows "verdict (tts_checks r) = Inr ()"
proof -
  from assms have models: "validateModels (get ''models'' r) = Inr ()"
    and one: "\<not> length (elements (get ''models'' r)) > 1"
    using single_model_list[of "get ''models'' r"]
    by (simp_all add: valid_request_def model_list_accepted)
  have prompt: "\<not> blank_string (get ''prompt'' r)"
    using assms by (simp add: valid_request_def filled_text_not_blank)
  have voice: "\<not> (truthy (default_to (JStr ''nova'') (get ''voice'' r))
        \<and> typeof (default_to (JStr ''nova'') (get ''voice'' r)) \<noteq> ''string'')"
    using assms by (intro voice_accepted) (simp add: valid_request_def)
  have params: "\<not> (default_to (JObj []) (get ''model_specific_params'' r) \<noteq> JUndefined
          \<and> typeof (default_to (JObj []) (get ''model_specific_params'' r)) \<noteq> ''object'')"
    using assms by (intro object_params_accepted) (simp add: valid_request_def)
  show ?thesis
    unfolding tts_checks_def Let_def models sum.case throw_if_skip[OF one]
      throw_if_skip[OF prompt] throw_if_skip[OF voice] throw_if_skip[OF params]
    by simp
qed

lemma stt_accepted:
  assumes "valid_request SpeechToText r"
  shows "stt_checks r = Inr ()"
proof -
  from assms have models: "validateModels (get ''models'' r) = Inr ()"
    and one: "\<not> length (elements (get ''models'' r)) > 1"
    using single_model_list[of "get ''models'' r"]
    by (simp_all add: valid_request_def model_list_accepted)
  have audio: "\<not> blank_string (get ''audio_file'' r)"
    using assms by (simp add: valid_request_def filled_text_not_blank)
  have params: "\<not> (default_to (JObj []) (get ''model_specific_params'' r) \<noteq> JUndefined
          \<and> typeof (default_to (JObj []) (get ''model_specific_params'' r)) \<noteq> ''object'')"
    using assms by (intro object_params_accepted) (simp add: valid_request_def)
  show ?thesis
    unfolding stt_checks_def Let_def models sum.case throw_if_skip[OF one]
      throw_if_skip[OF audio] throw_if_skip[OF params]
    by simp
qed

lemma rate_accepted:
  "0 < d \<Longrightarrow> absent_or positive_number v \<Longrightarrow>
     \<not> (default_to (JNum (Finite d)) v \<noteq> JUndefined
        \<and> not_positive_number (default_to (JNum (Finite d)) v))"
  using positive_number_accepted[of v]
  by (auto simp: default_to_def)

lemma loop_accepted:
  "absent_or boolean_value v \<Longrightarrow>
     \<not> (default_to (JBool False) v \<noteq> JUndefined
        \<and> typeof (default_to (JBool False) v) \<noteq> ''boolean'')"
  by (auto simp: absent_or_def default_to_def boolean_value_typeof)

lemma ratio_accepted:
  assumes "absent_or (number_pair (CHR '':'')) v"
  shows "check_pair name (CHR '':'') msg (default_to (JStr ''16:9'') v) rest = rest"
proof (cases "v = JUndefined")
  case True
  have "\<not> malformed_pair (js_split (CHR '':'') ''16:9'')"
    by (simp add: malformed_pair_def isNaN_Number_def js_trim_def is_space_def
        signed_decimal_def unsigned_decimal_def is_digit_def)
  with True show ?thesis
    by (simp add: default_to_def check_pair_def throw_if_def)
next
  case False
  with number_pair_accepted[OF assms] show ?thesis
    by (simp add: default_to_def)
qed

lemma video_seed_accepted:
  "absent_or whole_number v \<Longrightarrow> \<not> (v \<noteq> JUndefined \<and> \<not> isInteger v)"
  by (auto simp: absent_or_def whole_number_accepted)

lemma video_generate_accepted:
  assumes "valid_request VideoGenerate r"
  shows "verdict (video_generate_checks r) = Inr ()"
proof -
  from assms have head:
    "validateModelsAndPrompt (get ''models'' r) (get ''prompt'' r) = Inr ()"
    by (simp add: valid_request_def models_and_prompt_accepted)
  have duration: "\<not> (default_to (JNum (Finite 6)) (get ''duration'' r) \<noteq> JUndefined
        \<and> not_positive_number (default_to (JNum (Finite 6)) (get ''duration'' r)))"
    using assms by (intro rate_accepted) (simp_all add: valid_request_def)
  have loop: "\<not> (default_to (JBool False) (get ''loop'' r) \<noteq> JUndefined
        \<and> typeof (default_to (JBool False) (get ''loop'' r)) \<noteq> ''boolean'')"
    using assms by (intro loop_accepted) (simp add: valid_request_def)
  have fps: "\<not> (default_to (JNum (Finite 24)) (get ''fps'' r) \<noteq> JUndefined
        \<and> not_positive_number (default_to (JNum (Finite 24)) (get ''fps'' r)))"
    using assms by (intro rate_accepted) (simp_all add: valid_request_def)
  have ratio: "\<And>name msg rest. check_pair name (CHR '':'') msg
        (default_to (JStr ''16:9'') (get ''aspect_ratio'' r)) rest = rest"
    using assms by (intro ratio_accepted) (simp add: valid_request_def)
  have dimension:
    "\<And>name msg rest. check_pair name (CHR ''x'') msg (get ''dimension'' r) rest = rest"
    using assms by (intro number_pair_accepted) (simp add: valid_request_def)
  have seed: "\<not> (get ''seed'' r \<noteq> JUndefined \<and> \<not> isInteger (get ''seed'' r))"
    using assms by (intro video_seed_accepted) (simp add: valid_request_def)
  have params: "\<not> (default_to (JObj []) (get ''model_specific_params'' r) \<noteq> JUndefined
          \<and> typeof (default_to (JObj []) (get ''model_specific_params'' r)) \<noteq> ''object'')"
    using assms by (intro object_params_accepted) (simp add: valid_request_def)
  show ?thesis
    unfolding video_generate_checks_def Let_def head sum.case ratio dimension
      throw_if_skip[OF duration] throw_if_skip[OF loop] throw_if_skip[OF fps]
      throw_if_skip[OF seed] throw_if_skip[OF params]
    by simp
qed

text \<open>
  Every validation settles; what it adds to a closed store is out of reach of the
  request.
\<close>

lemma preserves_settles: "preserves m \<Longrightarrow> settles m"
  by (simp add: preserves_def settles_def)

lemma settles_default_object:
  assumes "\<And>v. preserves (k v)"
  shows "settles (and_then (default_object given) k)"
proof -
  have "prefix s (snd (k v (s @ [ObjectCell []])))" for s v
    using assms[of v] by (auto simp: preserves_def dest: spec[of _ "s @ [ObjectCell []]"] append_prefixD)
  moreover have "prefix s (snd (k v s))" for s v
    using assms[of v] by (simp add: preserves_def)
  moreover have "fst (k v s) = Inr x \<Longrightarrow> snd (k v s) = s" for s v x
    using assms[of v] by (simp add: preserves_def)
  ultimately show ?thesis
    by (auto simp: settles_def and_then_default_object)
qed

lemma settles_and_then:
  assumes "preserves m" "\<And>x. settles (k x)"
  shows "settles (and_then m k)"
proof -
  have "prefix s (snd (and_then m k s))
        \<and> (\<forall>y. fst (and_then m k s) = Inr y \<longrightarrow>
              snd (and_then m k s) = s \<or> snd (and_then m k s) = s @ [ObjectCell []])" for s
  proof (cases "m s")
    case (Pair r s')
    show ?thesis
    proof (cases r)
      case (Inl e)
      with Pair assms(1) show ?thesis
        by (auto simp: and_then_def preserves_def dest: spec[of _ s])
    next
      case (Inr x)
      with Pair assms(1) have "s' = s"
        by (auto simp: preserves_def dest: spec[of _ s])
      with Pair Inr assms(2)[of x] show ?thesis
        by (auto simp: and_then_def settles_def)
    qed
  qed
  then show ?thesis
    by (simp add: settles_def)
qed

lemma settles_validation: "settles (validation_at variant request)"
proof (cases variant)
  case ChatCompletion
  then show ?thesis
    by (simp add: preserves_settles preserves_validateRequestParameters)
next
  case ImageGenerate
  have "settles (image_generate_validation_at request)"
    unfolding image_generate_validation_at_def
    by (rule settles_default_object | rule settles_and_then | rule preserves_and_then
        | simp)+
  with ImageGenerate show ?thesis by simp
next
  case ImageEdit
  have "preserves (image_edit_validation_at request)"
    unfolding image_edit_validation_at_def by auto
  with ImageEdit show ?thesis by (simp add: preserves_settles)
next
  case AudioGenerate
  have "settles (audio_generate_validation_at request)"
    unfolding audio_generate_validation_at_def
    by (rule settles_default_object | rule settles_and_then | rule preserves_and_then
        | simp)+
  with AudioGenerate show ?thesis by simp
next
  case TextToSpeech
  have "settles (tts_validation_at request)"
    unfolding tts_validation_at_def
    by (rule settles_default_object | rule settles_and_then | rule preserves_and_then
        | simp)+
  with TextToSpeech show ?thesis by simp
next
  case SpeechToText
  have "settles (stt_validation_at request)"
    unfolding stt_validation_at_def
    by (rule settles_default_object | rule settles_and_then | rule preserves_and_then
        | simp)+
  with SpeechToText show ?thesis by simp
next
  case VideoGenerate
  have "settles (video_generate_validation_at request)"
    unfolding video_generate_validation_at_def
    by (rule settles_default_object | rule settles_and_then | rule preserves_and_then
        | simp)+
  with VideoGenerate show ?thesis by simp
qed

lemma value_at_appended:
  assumes "closed s"
  shows "in_store s r \<Longrightarrow> value_at n (s @ t) r = value_at n s r"
proof (induction n arbitrary: r)
  case 0
  show ?case by (cases r) simp_all
next
  case (Suc n)
  show ?case
  proof (cases r)
    case (RObject a)
    with Suc.prems have a: "a < length s"
      by simp
    with assms have inside: "\<forall>x \<in> set (cell_refs (s ! a)). in_store s x"
      by (auto simp: closed_def list_all_iff)
    then have "map (value_at n (s @ t)) (cell_refs (s ! a)) = map (value_at n s) (cell_refs (s ! a))"
      using Suc.IH by simp
    with a RObject inside show ?thesis
      using Suc.IH by (cases "s ! a") (auto simp: nth_append)
  qed simp_all
qed

lemma validation_accepts:
  assumes "valid_request variant (value_at (6 + d) s request)"
  shows "fst (validation_at variant request s) = Inr ()"
proof -
  have six: "6 + d = Suc (Suc (4 + d))"
    by simp
  show ?thesis
  proof (cases variant)
    case ChatCompletion
    with assms show ?thesis
      by (simp add: store_validator_agrees[where d = d] chat_accepted)
  next
    case ImageGenerate
    with assms show ?thesis
      unfolding six
      using image_generate_accepted[of "value_at (Suc (Suc (4 + d))) s request"]
      by (simp add: image_generate_agrees[where d = "4 + d"] valid_request_def
          plain_object_destructurable)
  next
    case ImageEdit
    with assms show ?thesis
      unfolding six
      using image_edit_accepted[of "value_at (Suc (Suc (4 + d))) s request"]
      by (simp add: image_edit_agrees[where d = "4 + d"] valid_request_def
          plain_object_destructurable)
  next
    case AudioGenerate
    with assms show ?thesis
      unfolding six
      using audio_generate_accepted[of "value_at (Suc (Suc (4 + d))) s request"]
      by (simp add: audio_generate_agrees[where d = "4 + d"] valid_request_def
          plain_object_destructurable)
  next
    case TextToSpeech
    with assms show ?thesis
      unfolding six
      using tts_accepted[of "value_at (Suc (Suc (4 + d))) s request"]
      by (simp add: tts_agrees[where d = "4 + d"] valid_request_def
          plain_object_destructurable)
  next
    case SpeechToText
    with assms show ?thesis
      unfolding six
      using stt_accepted[of "value_at (Suc (Suc (4 + d))) s request"]
      by (simp add: stt_agrees[where d = "4 + d"] valid_request_def
          plain_object_destructurable)
  next
    case VideoGenerate
    with assms show ?thesis
      unfolding six
      using video_generate_accepted[of "value_at (Suc (Suc (4 + d))) s request"]
      by (simp add: video_generate_agrees[where d = "4 + d"] valid_request_def
          plain_object_destructurable)
  qed
qed

text \<open>
  The example store is closed and its seven requests are valid. The image generation at
  address 6 is no valid image edit: validation throws, and the store grows by the error
  object. An assignment to a field of a request, such as filling a default in, is an
  action that does change the value of the request.
\<close>

lemma request_store_closed: "closed request_store"
  by code_simp

lemma request_store_valid:
  "valid_request ChatCompletion (value_at 6 request_store (RObject 0))"
  "valid_request ImageGenerate (value_at 6 request_store (RObject 6))"
  "valid_request ImageEdit (value_at 6 request_store (RObject 8))"
  "valid_request AudioGenerate (value_at 6 request_store (RObject 9))"
  "valid_request TextToSpeech (value_at 6 request_store (RObject 12))"
  "valid_request SpeechToText (value_at 6 request_store (RObject 14))"
  "valid_request VideoGenerate (value_at 6 request_store (RObject 16))"
  by code_simp+

lemma request_store_rejected:
  "validation_at ImageEdit (RObject 6) request_store
     = (validation_failure ''image_file must be a non-empty string'',
        request_store
          @ [ObjectCell [(''message'', RStr ''image_file must be a non-empty string''),
                         (''code'', RStr ''VALIDATION_ERROR''), (''status'', RUndefined),
                         (''details'', RUndefined), (''name'', RStr ''ValidationError'')]])"
  by code_simp


lemma assignment_changes_the_request:
  "value_at 6 (snd (assign (RObject 6) ''height'' (RNum (Finite 1024)) request_store))
     (RObject 6)
   \<noteq> value_at 6 request_store (RObject 6)"
  by code_simp

lemma request_store_size: "length request_store = 18"
  by (simp add: request_store_def)



lemma valid_request_is_sent_as_given:
  assumes "validateRequestParameters request = Inr ()"
  shows "completions mk request = send mk ''/chat/completions'' request"
    and "combination mk request = send mk ''/chat/combination'' request"
    and "search mk request = send mk ''/ai/web-search'' request"
  using assms by (simp_all add: completions_def combination_def search_def)

end
